theory Spec2Isabelle
  imports Main "HOL-Library.Word"
begin

unbundle bit_operations_syntax

section \<open>Data model of \<open>internal/model/webauthn.go\<close>\<close>

text \<open>
  Go's \<open>[]byte\<close> is a list of 8-bit words, \<open>uint32\<close> a 32-bit word, a Go
  \<open>string\<close> a list of 8-bit characters. A \<open>time.Time\<close> is modelled as the
  instant it denotes, in nanoseconds since the Unix epoch (location and monotonic clock
  reading are not part of the model).
\<close>

type_synonym byte = "8 word"
type_synonym uint32 = "32 word"
type_synonym Time = int

text \<open>
  The errors the functions of the file can meet, without their payloads: those of the
  base64 decoder, of the UUID parser and of the YAML decoder, and the error of a binary
  marshaller.
\<close>

datatype error =
    CorruptInputError
  | InvalidUUIDLength
  | InvalidUUIDFormat
  | InvalidURNPrefix
  | YAMLError
  | MarshalError

text \<open>\<open>sql.NullTime\<close>: \<open>struct { Time time.Time; Valid bool }\<close>.\<close>

record NullTime =
  NullTime_Time :: Time
  NullTime_Valid :: bool

text \<open>
  \<open>uuid.UUID\<close> is \<open>[16]byte\<close>: a byte list, of length 16 for every value the
  Go type has. \<open>uuid.NullUUID\<close> is \<open>struct { UUID UUID; Valid bool }\<close>.
\<close>

type_synonym UUID = "byte list"

record NullUUID =
  NullUUID_UUID :: UUID
  NullUUID_Valid :: bool

text \<open>
  Modelled from the spec: the type \<open>Base64\<close> of the package (\<open>NewBase64\<close>,
  \<open>Bytes\<close>, \<open>String\<close>) is declared outside the file. The spec calls kid a
  "binary credential identifier, canonical base64 form": a wrapper around the raw bytes,
  whose text form is their standard base64 encoding (\<open>String_Base64\<close> below).
\<close>

datatype Base64 = Base64 (data: "byte list")

definition NewBase64 :: "byte list \<Rightarrow> Base64" where
  "NewBase64 bs = Base64 bs"

definition Bytes :: "Base64 \<Rightarrow> byte list" where
  "Bytes b = data b"

text \<open>\<open>WebAuthnDevice\<close> (lines 141-155), with the source's field names.\<close>

record WebAuthnDevice =
  ID :: int
  CreatedAt :: Time
  LastUsedAt :: NullTime
  RPID :: string
  Username :: string
  Description :: string
  KID :: Base64
  PublicKey :: "byte list"
  AttestationType :: string
  Transport :: string
  AAGUID :: NullUUID
  SignCount :: uint32
  CloneWarning :: bool

text \<open>\<open>WebAuthnDeviceData\<close> (lines 256-269); \<open>*time.Time\<close> is an option.\<close>

record WebAuthnDeviceData =
  Data_CreatedAt :: Time
  Data_LastUsedAt :: "Time option"
  Data_RPID :: string
  Data_Username :: string
  Data_Description :: string
  Data_KID :: string
  Data_PublicKey :: string
  Data_AttestationType :: string
  Data_Transport :: string
  Data_AAGUID :: string
  Data_SignCount :: uint32
  Data_CloneWarning :: bool

text \<open>\<open>WebAuthnUser\<close> (lines 21-25).\<close>

record WebAuthnUser =
  User_Username :: string
  DisplayName :: string
  Devices :: "WebAuthnDevice list"

text \<open>
  The fields of \<open>webauthn.Config\<close>, \<open>webauthn.Authenticator\<close> and
  \<open>webauthn.Credential\<close> that the file reads or writes.
\<close>

record Config =
  Config_RPID :: string
  Config_RPOrigin :: string

record Authenticator =
  Authenticator_AAGUID :: "byte list"
  Authenticator_SignCount :: uint32
  Authenticator_CloneWarning :: bool

record Credential =
  Credential_ID :: "byte list"
  Credential_PublicKey :: "byte list"
  Credential_AttestationType :: string
  Credential_Transport :: "string list"
  Credential_Authenticator :: Authenticator

definition attestationTypeFIDOU2F :: string where
  "attestationTypeFIDOU2F = ''fido-u2f''"

section \<open>Library functions the file calls\<close>

text \<open>
  The functions of the Go standard library and of \<open>github.com/google/uuid\<close> that
  the file calls are not part of it. They are written out here as those libraries
  define them, so that the functions of the file can be evaluated.
\<close>

subsection \<open>\<open>time\<close>\<close>

text \<open>
  \<open>Time.Unix\<close> are the whole seconds since the epoch and \<open>Time.Nanosecond\<close>
  the offset within the second, in \<open>[0, 999999999]\<close>; \<open>time.Unix(sec, nsec)\<close> is
  the instant \<open>nsec\<close> nanoseconds after second \<open>sec\<close>. The zero \<open>time.Time\<close>
  is January 1 of year 1, 00:00 UTC.
\<close>

definition Unix :: "Time \<Rightarrow> int" where
  "Unix t = t div 1000000000"

definition Nanosecond :: "Time \<Rightarrow> int" where
  "Nanosecond t = t mod 1000000000"

definition time_Unix :: "int \<Rightarrow> int \<Rightarrow> Time" where
  "time_Unix sec nsec = sec * 1000000000 + nsec"

definition zero_Time :: Time where
  "zero_Time = - 62135596800 * 1000000000"

subsection \<open>\<open>strings\<close>\<close>

text \<open>
  \<open>strings.Split(s, sep)\<close> for a one-byte separator: the substrings between the
  separators, so \<open>n\<close> separators give \<open>n + 1\<close> substrings and the empty string
  gives one empty substring. \<open>tok\<close> is the substring being read.
\<close>

fun Split_from :: "char \<Rightarrow> string \<Rightarrow> string \<Rightarrow> string list" where
  "Split_from sep tok [] = [tok]"
| "Split_from sep tok (c # cs) =
     (if c = sep then tok # Split_from sep [] cs else Split_from sep (tok @ [c]) cs)"

definition Split :: "string \<Rightarrow> char \<Rightarrow> string list" where
  "Split s sep = Split_from sep [] s"

text \<open>\<open>strings.Join(elems, sep)\<close>.\<close>

fun Join :: "string list \<Rightarrow> string \<Rightarrow> string" where
  "Join [] sep = []"
| "Join [e] sep = e"
| "Join (e # es) sep = e @ sep @ Join es sep"

subsection \<open>\<open>encoding/hex\<close>\<close>

definition hextable :: string where
  "hextable = ''0123456789abcdef''"

text \<open>\<open>hex.EncodeToString\<close>: \<open>hextable[v>>4]\<close>, then \<open>hextable[v&0x0f]\<close>.\<close>

fun EncodeToString_hex :: "byte list \<Rightarrow> string" where
  "EncodeToString_hex [] = []"
| "EncodeToString_hex (v # src) =
     hextable ! unat (drop_bit 4 v) # hextable ! unat (v AND 0x0f) # EncodeToString_hex src"

subsection \<open>\<open>encoding/base64\<close>, \<open>StdEncoding\<close>\<close>

definition encodeStd :: string where
  "encodeStd = ''ABCDEFGHIJKLMNOPQRSTUVWXYZabcdefghijklmnopqrstuvwxyz0123456789+/''"

definition padChar :: char where
  "padChar = CHR ''=''"

text \<open>
  \<open>EncodeToString\<close>: three bytes give four characters; a rest of one or two bytes is
  padded with \<open>=\<close>.
\<close>

definition enc :: "uint32 \<Rightarrow> char" where
  "enc v = encodeStd ! unat (v AND 0x3F)"

fun EncodeToString :: "byte list \<Rightarrow> string" where
  "EncodeToString (b0 # b1 # b2 # src) =
     (let val = push_bit 16 (ucast b0) OR push_bit 8 (ucast b1) OR ucast b2
      in enc (drop_bit 18 val) # enc (drop_bit 12 val) # enc (drop_bit 6 val) # enc val #
         EncodeToString src)"
| "EncodeToString [b0, b1] =
     (let val = push_bit 16 (ucast b0) OR push_bit 8 (ucast b1)
      in [enc (drop_bit 18 val), enc (drop_bit 12 val), enc (drop_bit 6 val), padChar])"
| "EncodeToString [b0] =
     (let val = push_bit 16 (ucast b0)
      in [enc (drop_bit 18 val), enc (drop_bit 12 val), padChar, padChar])"
| "EncodeToString [] = []"

text \<open>
  The decode map: the index of a character in the alphabet, \<open>0xff\<close> for every other
  character.
\<close>

fun index_of :: "char \<Rightarrow> string \<Rightarrow> nat \<Rightarrow> nat option" where
  "index_of c [] i = None"
| "index_of c (x # xs) i = (if x = c then Some i else index_of c xs (Suc i))"

definition decodeMap :: "char \<Rightarrow> byte" where
  "decodeMap c = (case index_of c encodeStd 0 of None \<Rightarrow> 0xff | Some i \<Rightarrow> of_nat i)"

definition is_newline :: "char \<Rightarrow> bool" where
  "is_newline c \<longleftrightarrow> c = CHR 0x0A \<or> c = CHR 0x0D"

text \<open>
  The end of \<open>decodeQuantum\<close>: the bytes of a quantum of \<open>dlen\<close> characters
  (\<open>dlen - 1\<close> bytes), the missing characters counting as zero.
\<close>

definition quantum_bytes :: "byte list \<Rightarrow> byte list" where
  "quantum_bytes dbuf =
     (let d = map ucast dbuf @ replicate (4 - length dbuf) (0 :: uint32);
          val = push_bit 18 (d ! 0) OR push_bit 12 (d ! 1) OR push_bit 6 (d ! 2) OR d ! 3
      in take (length dbuf - 1) [ucast (drop_bit 16 val), ucast (drop_bit 8 val), ucast val])"

text \<open>
  \<open>decodeQuantum\<close> at a padding character, \<open>j\<close> characters of the quantum read:
  padding is refused after none or one character; after two characters a second
  \<open>=\<close> must follow; then only newlines may follow. Trailing garbage is an error that
  still delivers the bytes of the quantum.
\<close>

definition padding :: "byte list \<Rightarrow> string \<Rightarrow> byte list \<times> error option" where
  "padding dbuf src =
     (if length dbuf = 0 \<or> length dbuf = 1 then ([], Some CorruptInputError)
      else
        (let src1 =
           (if length dbuf = 2
            then (case dropWhile is_newline src of
                    [] \<Rightarrow> None
                  | c # rest \<Rightarrow> if c \<noteq> padChar then None else Some rest)
            else Some src)
         in case src1 of
              None \<Rightarrow> ([], Some CorruptInputError)
            | Some rest \<Rightarrow>
                (if dropWhile is_newline rest \<noteq> []
                 then (quantum_bytes dbuf, Some CorruptInputError)
                 else (quantum_bytes dbuf, None))))"

text \<open>
  \<open>Decode\<close>: quantum after quantum. \<open>dbuf\<close> holds the characters of the current
  quantum decoded so far; newlines are skipped; the input may not end inside a quantum.
  The result is the bytes written and the error, as \<open>DecodeString\<close> returns both.
\<close>

fun Decode :: "string \<Rightarrow> byte list \<Rightarrow> byte list \<times> error option" where
  "Decode [] dbuf = (if dbuf = [] then ([], None) else ([], Some CorruptInputError))"
| "Decode (c # src) dbuf =
     (if decodeMap c \<noteq> 0xff then
        (if length dbuf = 3
         then (case Decode src [] of (bs, err) \<Rightarrow> (quantum_bytes (dbuf @ [decodeMap c]) @ bs, err))
         else Decode src (dbuf @ [decodeMap c]))
      else if is_newline c then Decode src dbuf
      else if c \<noteq> padChar then ([], Some CorruptInputError)
      else padding dbuf src)"

definition DecodeString :: "string \<Rightarrow> byte list \<times> error option" where
  "DecodeString s = Decode s []"

text \<open>The text form of a \<open>Base64\<close> value (see the data model).\<close>

definition String_Base64 :: "Base64 \<Rightarrow> string" where
  "String_Base64 b = EncodeToString (data b)"

subsection \<open>\<open>github.com/google/uuid\<close>\<close>

definition Nil_UUID :: UUID where
  "Nil_UUID = replicate 16 0"

text \<open>
  \<open>UUID.String\<close>: the form \<open>xxxxxxxx-xxxx-xxxx-xxxx-xxxxxxxxxxxx\<close> in lower-case
  hexadecimal digits.
\<close>

definition String_UUID :: "UUID \<Rightarrow> string" where
  "String_UUID u =
     EncodeToString_hex (take 4 u) @ ''-'' @
     EncodeToString_hex (take 2 (drop 4 u)) @ ''-'' @
     EncodeToString_hex (take 2 (drop 6 u)) @ ''-'' @
     EncodeToString_hex (take 2 (drop 8 u)) @ ''-'' @
     EncodeToString_hex (drop 10 u)"

text \<open>
  \<open>xvalues\<close> maps a hexadecimal digit of either case to its value and every other
  character to 255; \<open>xtob\<close> converts two digits into a byte and reports whether both
  were digits.
\<close>

definition xvalues :: "char \<Rightarrow> byte" where
  "xvalues c =
     (let n = (of_char c :: nat)
      in if 48 \<le> n \<and> n \<le> 57 then of_nat (n - 48)
         else if 65 \<le> n \<and> n \<le> 70 then of_nat (n - 55)
         else if 97 \<le> n \<and> n \<le> 102 then of_nat (n - 87)
         else 255)"

definition xtob :: "char \<Rightarrow> char \<Rightarrow> byte \<times> bool" where
  "xtob x1 x2 =
     (let b1 = xvalues x1; b2 = xvalues x2
      in (push_bit 4 b1 OR b2, b1 \<noteq> 255 \<and> b2 \<noteq> 255))"

text \<open>The loop of \<open>Parse\<close> over the positions of the sixteen digit pairs.\<close>

fun xtob_at :: "string \<Rightarrow> nat list \<Rightarrow> error + UUID" where
  "xtob_at s [] = Inr []"
| "xtob_at s (x # xs) =
     (case xtob (s ! x) (s ! (x + 1)) of
        (v, ok) \<Rightarrow>
          if \<not> ok then Inl InvalidUUIDFormat
          else (case xtob_at s xs of Inl err \<Rightarrow> Inl err | Inr uuid \<Rightarrow> Inr (v # uuid)))"

definition to_lower :: "char \<Rightarrow> char" where
  "to_lower c =
     (let n = (of_char c :: nat) in if 65 \<le> n \<and> n \<le> 90 then char_of (n + 32) else c)"

text \<open>
  \<open>Parse\<close>: the standard form of 36 characters, the same after \<open>urn:uuid:\<close> (in any
  case) or inside one leading and one trailing character (the braces, which are not
  looked at), or 32 hexadecimal digits. \<open>parse_hyphenated\<close> is the common tail on a
  string of at least 36 characters.
\<close>

definition parse_hyphenated :: "string \<Rightarrow> error + UUID" where
  "parse_hyphenated s =
     (if s ! 8 \<noteq> CHR ''-'' \<or> s ! 13 \<noteq> CHR ''-'' \<or> s ! 18 \<noteq> CHR ''-'' \<or> s ! 23 \<noteq> CHR ''-''
      then Inl InvalidUUIDFormat
      else xtob_at s [0, 2, 4, 6, 9, 11, 14, 16, 19, 21, 24, 26, 28, 30, 32, 34])"

definition Parse :: "string \<Rightarrow> error + UUID" where
  "Parse s =
     (if length s = 36 then parse_hyphenated s
      else if length s = 36 + 9 then
        (if map to_lower (take 9 s) \<noteq> ''urn:uuid:'' then Inl InvalidURNPrefix
         else parse_hyphenated (drop 9 s))
      else if length s = 36 + 2 then parse_hyphenated (drop 1 s)
      else if length s = 32 then
        xtob_at s [0, 2, 4, 6, 8, 10, 12, 14, 16, 18, 20, 22, 24, 26, 28, 30]
      else Inl InvalidUUIDLength)"

text \<open>
  \<open>UUID.ID\<close> is \<open>binary.BigEndian.Uint32(uuid[0:4])\<close>: the first four bytes as a
  32-bit number (the id of a version 2 UUID).
\<close>

definition UUID_ID :: "UUID \<Rightarrow> uint32" where
  "UUID_ID uuid =
     ucast (uuid ! 3) OR push_bit 8 (ucast (uuid ! 2)) OR
     push_bit 16 (ucast (uuid ! 1)) OR push_bit 24 (ucast (uuid ! 0))"

text \<open>
  \<open>NullUUID.MarshalBinary\<close> returns the sixteen bytes of a valid value and no bytes
  for one that is not valid; it has an error result and never returns an error.
\<close>

definition MarshalBinary :: "NullUUID \<Rightarrow> error + byte list" where
  "MarshalBinary nu = (if NullUUID_Valid nu then Inr (NullUUID_UUID nu) else Inr [])"

section \<open>Zero values\<close>

definition zero_NullTime :: NullTime where
  "zero_NullTime = \<lparr>NullTime_Time = zero_Time, NullTime_Valid = False\<rparr>"

definition zero_NullUUID :: NullUUID where
  "zero_NullUUID = \<lparr>NullUUID_UUID = Nil_UUID, NullUUID_Valid = False\<rparr>"

definition zero_WebAuthnDevice :: WebAuthnDevice where
  "zero_WebAuthnDevice =
     \<lparr>ID = 0, CreatedAt = zero_Time, LastUsedAt = zero_NullTime, RPID = [], Username = [],
      Description = [], KID = Base64 [], PublicKey = [], AttestationType = [],
      Transport = [], AAGUID = zero_NullUUID, SignCount = 0, CloneWarning = False\<rparr>"

definition zero_WebAuthnDeviceData :: WebAuthnDeviceData where
  "zero_WebAuthnDeviceData =
     \<lparr>Data_CreatedAt = zero_Time, Data_LastUsedAt = None, Data_RPID = [],
      Data_Username = [], Data_Description = [], Data_KID = [], Data_PublicKey = [],
      Data_AttestationType = [], Data_Transport = [], Data_AAGUID = [],
      Data_SignCount = 0, Data_CloneWarning = False\<rparr>"

definition zero_Credential :: Credential where
  "zero_Credential =
     \<lparr>Credential_ID = [], Credential_PublicKey = [], Credential_AttestationType = [],
      Credential_Transport = [],
      Credential_Authenticator =
        \<lparr>Authenticator_AAGUID = [], Authenticator_SignCount = 0,
         Authenticator_CloneWarning = False\<rparr>\<rparr>"

section \<open>The legacy-U2F query\<close>

text \<open>\<open>HasFIDOU2F\<close> (lines 28-36): the loop returns at the first match.\<close>

fun HasFIDOU2F_loop :: "WebAuthnDevice list \<Rightarrow> bool" where
  "HasFIDOU2F_loop [] = False"
| "HasFIDOU2F_loop (c # rest) =
     (if AttestationType c = attestationTypeFIDOU2F then True else HasFIDOU2F_loop rest)"

definition HasFIDOU2F :: "WebAuthnUser \<Rightarrow> bool" where
  "HasFIDOU2F w = HasFIDOU2F_loop (Devices w)"

section \<open>The sign-in updater\<close>

text \<open>
  \<open>UpdateSignInInfo\<close> (lines 158-173) mutates the receiver; the model returns the
  device after the call. The two assignments come first, then the early return on a
  non-empty RPID, then the switch on the attestation type.
\<close>

definition UpdateSignInInfo :: "Config \<Rightarrow> Time \<Rightarrow> uint32 \<Rightarrow> WebAuthnDevice \<Rightarrow> WebAuthnDevice" where
  "UpdateSignInInfo config now signCount d =
     (let d1 = d\<lparr>LastUsedAt := \<lparr>NullTime_Time = now, NullTime_Valid = True\<rparr>\<rparr>;
          d2 = d1\<lparr>SignCount := signCount\<rparr>
      in if RPID d2 \<noteq> [] then d2
         else if AttestationType d2 = attestationTypeFIDOU2F
              then d2\<lparr>RPID := Config_RPOrigin config\<rparr>
              else d2\<lparr>RPID := Config_RPID config\<rparr>)"

text \<open>A sequence of sign-ins, each with its own configuration, time and counter.\<close>

fun sign_ins :: "(Config \<times> Time \<times> uint32) list \<Rightarrow> WebAuthnDevice \<Rightarrow> WebAuthnDevice" where
  "sign_ins [] d = d"
| "sign_ins ((config, now, signCount) # calls) d =
     sign_ins calls (UpdateSignInInfo config now signCount d)"

section \<open>The user adapter\<close>

text \<open>
  The inner loop of \<open>WebAuthnCredentials\<close> (lines 84-90) over the result of
  \<open>strings.Split\<close>: an empty token is skipped, any other is appended.
\<close>

fun transport_loop :: "string list \<Rightarrow> string list \<Rightarrow> string list" where
  "transport_loop [] acc = acc"
| "transport_loop (t # transports) acc =
     (if t = [] then transport_loop transports acc
      else transport_loop transports (acc @ [t]))"

text \<open>
  \<open>WebAuthnCredentials\<close> (lines 59-96). \<open>credentials\<close> is made with one zero-valued
  entry per device; the loop writes entry \<open>i\<close> for device \<open>i\<close>. The call
  \<open>device.AAGUID.MarshalBinary()\<close> of line 65 is a call into the uuid library: the loop
  takes the marshaller as \<open>marshal\<close>, so that both branches of the check of line 66 can
  be followed. Where the marshaller returns an error the loop continues and the entry
  stays as it was made.
\<close>

fun WebAuthnCredentials_loop ::
  "(NullUUID \<Rightarrow> error + byte list) \<Rightarrow> nat \<Rightarrow> WebAuthnDevice list \<Rightarrow> Credential list \<Rightarrow>
   Credential list" where
  "WebAuthnCredentials_loop marshal i [] credentials = credentials"
| "WebAuthnCredentials_loop marshal i (device # devices) credentials =
     (case marshal (AAGUID device) of
        Inl err \<Rightarrow> WebAuthnCredentials_loop marshal (i + 1) devices credentials
      | Inr aaguid \<Rightarrow>
          (let credential =
             \<lparr>Credential_ID = Bytes (KID device),
              Credential_PublicKey = PublicKey device,
              Credential_AttestationType = AttestationType device,
              Credential_Transport = [],
              Credential_Authenticator =
                \<lparr>Authenticator_AAGUID = aaguid,
                 Authenticator_SignCount = SignCount device,
                 Authenticator_CloneWarning = CloneWarning device\<rparr>\<rparr>;
               transports = Split (Transport device) (CHR '','');
               credential = credential\<lparr>Credential_Transport := transport_loop transports []\<rparr>
           in WebAuthnCredentials_loop marshal (i + 1) devices (credentials[i := credential])))"

definition WebAuthnCredentials_with ::
  "(NullUUID \<Rightarrow> error + byte list) \<Rightarrow> WebAuthnUser \<Rightarrow> Credential list" where
  "WebAuthnCredentials_with marshal w =
     WebAuthnCredentials_loop marshal 0 (Devices w)
       (replicate (length (Devices w)) zero_Credential)"

text \<open>The method as the file has it, with the marshaller of the uuid library.\<close>

definition WebAuthnCredentials :: "WebAuthnUser \<Rightarrow> Credential list" where
  "WebAuthnCredentials w = WebAuthnCredentials_with MarshalBinary w"

text \<open>
  The transport list of a translated device as the spec words it (4.1): the stored
  transport string split at the commas, without its empty tokens.
\<close>

definition transports_spec :: "string \<Rightarrow> string list" where
  "transports_spec s = filter (\<lambda>t. t \<noteq> []) (Split s (CHR '',''))"

text \<open>
  The translation of a device whose aaguid has been re-serialized to \<open>aaguid\<close>, as the
  spec words it (4.1): id, public key and attestation type copied, the sign counter and
  the clone warning in the authenticator next to the aaguid, and the transport list.
\<close>

definition translated :: "byte list \<Rightarrow> WebAuthnDevice \<Rightarrow> Credential" where
  "translated aaguid device =
     \<lparr>Credential_ID = Bytes (KID device),
      Credential_PublicKey = PublicKey device,
      Credential_AttestationType = AttestationType device,
      Credential_Transport = transports_spec (Transport device),
      Credential_Authenticator =
        \<lparr>Authenticator_AAGUID = aaguid,
         Authenticator_SignCount = SignCount device,
         Authenticator_CloneWarning = CloneWarning device\<rparr>\<rparr>"

text \<open>
  The entry of the list for one device: its translation, or the zero-valued credential
  where the marshaller returns an error.
\<close>

definition entry_of :: "(NullUUID \<Rightarrow> error + byte list) \<Rightarrow> WebAuthnDevice \<Rightarrow> Credential" where
  "entry_of marshal device =
     (case marshal (AAGUID device) of
        Inl err \<Rightarrow> zero_Credential
      | Inr aaguid \<Rightarrow> translated aaguid device)"

section \<open>The device constructor\<close>

text \<open>
  \<open>NewWebAuthnDeviceFromCredential\<close> (lines 112-138); \<open>now\<close> is what
  \<open>time.Now()\<close> returns. A transport identifier is a string, so the first loop copies
  the list. The fields the struct literal does not name are zero.
\<close>

definition NewWebAuthnDeviceFromCredential ::
  "string \<Rightarrow> string \<Rightarrow> string \<Rightarrow> Credential \<Rightarrow> Time \<Rightarrow> WebAuthnDevice" where
  "NewWebAuthnDeviceFromCredential rpid username description credential now =
     (let transport = map (\<lambda>t. t) (Credential_Transport credential);
          device =
            \<lparr>ID = 0,
             CreatedAt = now,
             LastUsedAt = zero_NullTime,
             RPID = rpid,
             Username = username,
             Description = description,
             KID = NewBase64 (Credential_ID credential),
             PublicKey = Credential_PublicKey credential,
             AttestationType = Credential_AttestationType credential,
             Transport = Join transport '','',
             AAGUID = zero_NullUUID,
             SignCount = Authenticator_SignCount (Credential_Authenticator credential),
             CloneWarning = Authenticator_CloneWarning (Credential_Authenticator credential)\<rparr>
      in case Parse (EncodeToString_hex (Authenticator_AAGUID (Credential_Authenticator credential))) of
           Inl err \<Rightarrow> device
         | Inr aaguid \<Rightarrow>
             if UUID_ID aaguid \<noteq> 0
             then device\<lparr>AAGUID := \<lparr>NullUUID_UUID = aaguid, NullUUID_Valid = True\<rparr>\<rparr>
             else device)"

section \<open>The external codec\<close>

text \<open>\<open>LastUsed\<close> (lines 176-184): a nil pointer is \<open>None\<close>.\<close>

definition LastUsed :: "WebAuthnDevice \<Rightarrow> Time option" where
  "LastUsed d =
     (if NullTime_Valid (LastUsedAt d)
      then Some (time_Unix (Unix (NullTime_Time (LastUsedAt d)))
                           (Nanosecond (NullTime_Time (LastUsedAt d))))
      else None)"

text \<open>\<open>WebAuthnDevice.ToData\<close> (lines 187-202).\<close>

definition ToData :: "WebAuthnDevice \<Rightarrow> WebAuthnDeviceData" where
  "ToData d =
     \<lparr>Data_CreatedAt = CreatedAt d,
      Data_LastUsedAt = LastUsed d,
      Data_RPID = RPID d,
      Data_Username = Username d,
      Data_Description = Description d,
      Data_KID = String_Base64 (KID d),
      Data_PublicKey = EncodeToString (PublicKey d),
      Data_AttestationType = AttestationType d,
      Data_Transport = Transport d,
      Data_AAGUID = String_UUID (NullUUID_UUID (AAGUID d)),
      Data_SignCount = SignCount d,
      Data_CloneWarning = CloneWarning d\<rparr>"

text \<open>
  \<open>WebAuthnDevice.UnmarshalYAML\<close> (lines 210-253). \<open>node\<close> is what
  \<open>value.Decode(o)\<close> gives: an error, or the record \<open>o\<close> (here \<open>dat\<close>). The method assigns to
  the fields of its receiver \<open>d\<close> and returns an error or nil; the model returns the
  receiver as the method leaves it together with the error. The assignment to
  \<open>d.PublicKey\<close> comes before the check of its error.
\<close>

definition UnmarshalYAML ::
  "WebAuthnDevice \<Rightarrow> error + WebAuthnDeviceData \<Rightarrow> WebAuthnDevice \<times> error option" where
  "UnmarshalYAML d node =
     (case node of
        Inl err \<Rightarrow> (d, Some err)
      | Inr dat \<Rightarrow>
          (case DecodeString (Data_PublicKey dat) of
             (publicKey, err1) \<Rightarrow>
               (let d1 = d\<lparr>PublicKey := publicKey\<rparr>
                in case err1 of
                     Some err \<Rightarrow> (d1, Some err)
                   | None \<Rightarrow>
                       (case Parse (Data_AAGUID dat) of
                          Inl err \<Rightarrow> (d1, Some err)
                        | Inr aaguid \<Rightarrow>
                            (let d2 =
                               (if UUID_ID aaguid \<noteq> 0
                                then d1\<lparr>AAGUID := \<lparr>NullUUID_UUID = aaguid, NullUUID_Valid = True\<rparr>\<rparr>
                                else d1)
                             in case DecodeString (Data_KID dat) of
                                  (kid, Some err) \<Rightarrow> (d2, Some err)
                                | (kid, None) \<Rightarrow>
                                    (let d3 =
                                       d2\<lparr>KID := NewBase64 kid,
                                          CreatedAt := Data_CreatedAt dat,
                                          RPID := Data_RPID dat,
                                          Username := Data_Username dat,
                                          Description := Data_Description dat,
                                          AttestationType := Data_AttestationType dat,
                                          Transport := Data_Transport dat,
                                          SignCount := Data_SignCount dat,
                                          CloneWarning := Data_CloneWarning dat\<rparr>
                                     in case Data_LastUsedAt dat of
                                          None \<Rightarrow> (d3, None)
                                        | Some t \<Rightarrow>
                                            (d3\<lparr>LastUsedAt :=
                                                  \<lparr>NullTime_Time = t, NullTime_Valid = True\<rparr>\<rparr>,
                                             None)))))))"

section \<open>The export container\<close>

record WebAuthnDeviceExport =
  WebAuthnDevices :: "WebAuthnDevice list"

record WebAuthnDeviceDataExport =
  Data_WebAuthnDevices :: "WebAuthnDeviceData list"

text \<open>
  \<open>WebAuthnDeviceExport.ToData\<close> (lines 282-292): the slice is made with one
  zero-valued entry per device and the loop writes entry \<open>i\<close> for device \<open>i\<close>.
\<close>

fun ToData_loop ::
  "nat \<Rightarrow> WebAuthnDevice list \<Rightarrow> WebAuthnDeviceData list \<Rightarrow> WebAuthnDeviceData list" where
  "ToData_loop i [] ds = ds"
| "ToData_loop i (device # devices) ds = ToData_loop (i + 1) devices (ds[i := ToData device])"

definition ToData_Export :: "WebAuthnDeviceExport \<Rightarrow> WebAuthnDeviceDataExport" where
  "ToData_Export export =
     \<lparr>Data_WebAuthnDevices =
        ToData_loop 0 (WebAuthnDevices export)
          (replicate (length (WebAuthnDevices export)) zero_WebAuthnDeviceData)\<rparr>"

text \<open>
  Modelled from the spec: the file has no function that decodes a container; the
  structured-text facility does it, calling \<open>UnmarshalYAML\<close> for each record. The spec
  (4.5, 7): "Encode/decode apply the Device External Codec to each element
  independently, preserving input order. A decode failure on any element aborts
  decoding of the entire container - no partial container is returned." Each record is
  decoded into a device of its own, which starts zero-valued.
\<close>

fun decode_devices :: "(error + WebAuthnDeviceData) list \<Rightarrow> error + WebAuthnDevice list" where
  "decode_devices [] = Inr []"
| "decode_devices (node # nodes) =
     (case UnmarshalYAML zero_WebAuthnDevice node of
        (d, Some err) \<Rightarrow> Inl err
      | (d, None) \<Rightarrow>
          (case decode_devices nodes of
             Inl err \<Rightarrow> Inl err
           | Inr ds \<Rightarrow> Inr (d # ds)))"

definition decode_Export :: "(error + WebAuthnDeviceData) list \<Rightarrow> error + WebAuthnDeviceExport" where
  "decode_Export nodes =
     (case decode_devices nodes of
        Inl err \<Rightarrow> Inl err
      | Inr ds \<Rightarrow> Inr \<lparr>WebAuthnDevices = ds\<rparr>)"

section \<open>Notions the statements use\<close>

text \<open>
  The devices the round trip is stated for. The aaguid is a UUID of sixteen bytes,
  either marked valid, with a non-zero \<open>ID\<close>, or not marked valid and nil; a
  \<open>LastUsedAt\<close> that is not marked valid holds the zero time. A device made by
  \<open>NewWebAuthnDeviceFromCredential\<close>, updated by \<open>UpdateSignInInfo\<close> or decoded
  by \<open>UnmarshalYAML\<close> from a zero-valued one is of this kind (lemmas
  \<open>valid_device_NewWebAuthnDeviceFromCredential\<close>, \<open>valid_device_UpdateSignInInfo\<close>,
  \<open>valid_device_UnmarshalYAML\<close>).
\<close>

definition valid_device :: "WebAuthnDevice \<Rightarrow> bool" where
  "valid_device d \<longleftrightarrow>
     length (NullUUID_UUID (AAGUID d)) = 16 \<and>
     (if NullUUID_Valid (AAGUID d) then UUID_ID (NullUUID_UUID (AAGUID d)) \<noteq> 0
      else NullUUID_UUID (AAGUID d) = Nil_UUID) \<and>
     (if NullTime_Valid (LastUsedAt d) then True else NullTime_Time (LastUsedAt d) = zero_Time)"

text \<open>A text is valid base64 when \<open>DecodeString\<close> returns no error for it.\<close>

definition valid_base64 :: "string \<Rightarrow> bool" where
  "valid_base64 s \<longleftrightarrow> snd (DecodeString s) = None"

text \<open>
  The texts \<open>Parse\<close> accepts: those for which it returns no error. This is what the
  code tests; it is not the same as being a UUID in its text form.
\<close>

definition Parse_accepts :: "string \<Rightarrow> bool" where
  "Parse_accepts s = (case Parse s of Inl err \<Rightarrow> False | Inr uuid \<Rightarrow> True)"

text \<open>
  A syntactically valid UUID, as the claims word it: the text form of 36 characters,
  \<open>xxxxxxxx-xxxx-xxxx-xxxx-xxxxxxxxxxxx\<close>, with hyphens at the positions 8, 13, 18 and
  23 and a hexadecimal digit of either case at every other position.
\<close>

definition is_hex_digit :: "char \<Rightarrow> bool" where
  "is_hex_digit c \<longleftrightarrow> c \<in> set ''0123456789abcdefABCDEF''"

definition syntactic_UUID :: "string \<Rightarrow> bool" where
  "syntactic_UUID s \<longleftrightarrow>
     length s = 36 \<and>
     list_all (\<lambda>i. if i \<in> {8, 13, 18, 23} then s ! i = CHR ''-'' else is_hex_digit (s ! i))
       [0..<36]"

text \<open>
  Abbreviations for the proofs about the two encodings: the six low bits of a word as a
  byte, the 24-bit group of three bytes, and the two digits of a byte.
\<close>

definition sextet :: "uint32 \<Rightarrow> byte" where
  "sextet x = ucast (take_bit 6 x)"

definition val3 :: "byte \<Rightarrow> byte \<Rightarrow> byte \<Rightarrow> uint32" where
  "val3 b0 b1 b2 = push_bit 16 (ucast b0) OR push_bit 8 (ucast b1) OR ucast b2"

definition hex_hi :: "byte \<Rightarrow> char" where
  "hex_hi v = hextable ! unat (drop_bit 4 v)"

definition hex_lo :: "byte \<Rightarrow> char" where
  "hex_lo v = hextable ! unat (v AND 0x0f)"

section \<open>Properties of the library functions\<close>

subsection \<open>Hexadecimal digits\<close>

lemma nibbles: "push_bit 4 (drop_bit 4 v) OR (v AND 0x0f) = (v :: byte)"
proof -
  have "(0x0f :: byte) = mask 4" by (simp add: mask_eq_exp_minus_1)
  then show ?thesis
    by (auto simp add: bit_eq_iff bit_simps)
qed

lemma xvalues_hextable: "\<forall>n \<in> {0..<16}. xvalues (hextable ! n) = of_nat n \<and> hextable ! n \<noteq> CHR ''-''"
  by code_simp

lemma high_nibble_less: "unat (drop_bit 4 (v :: byte)) < 16"
proof -
  have "unat v < 256" using unsigned_less [of v, where 'a = nat] by simp
  moreover have "unat (drop_bit 4 v) = unat v div 16"
    by (subst unat_drop_bit_eq) (simp add: drop_bit_eq_div)
  ultimately show ?thesis by simp
qed

lemma low_nibble_less: "unat ((v :: byte) AND 0x0f) < 16"
proof -
  have "v AND 0x0f = take_bit 4 v" by (simp add: take_bit_eq_mask mask_eq_exp_minus_1)
  then have "unat (v AND 0x0f) = take_bit 4 (unat v)"
    by (simp only: unsigned_take_bit_eq)
  then show ?thesis by (simp add: take_bit_eq_mod)
qed

lemma xtob_hex: "xtob (hextable ! unat (drop_bit 4 v)) (hextable ! unat (v AND 0x0f)) = (v, True)"
proof -
  have h: "xvalues (hextable ! unat (drop_bit 4 v)) = drop_bit 4 v"
    using xvalues_hextable high_nibble_less [of v] by simp
  have l: "xvalues (hextable ! unat (v AND 0x0f)) = v AND 0x0f"
    using xvalues_hextable low_nibble_less [of v] by simp
  have "unat (drop_bit 4 v) \<noteq> 255" using high_nibble_less [of v] by simp
  then have h255: "drop_bit 4 v \<noteq> 255" by auto
  have "unat (v AND 0x0f) \<noteq> 255" using low_nibble_less [of v] by simp
  then have l255: "v AND 0x0f \<noteq> 255" by auto
  show ?thesis
    unfolding xtob_def Let_def h l using nibbles [of v] h255 l255 by simp
qed

lemma EncodeToString_hex_Cons:
  "EncodeToString_hex (v # src) = hex_hi v # hex_lo v # EncodeToString_hex src"
  by (simp add: hex_hi_def hex_lo_def)

lemma xtob_hex_digits: "xtob (hex_hi v) (hex_lo v) = (v, True)"
  unfolding hex_hi_def hex_lo_def by (rule xtob_hex)

lemma hex_digit_not_hyphen: "hex_hi v \<noteq> CHR ''-''" "hex_lo v \<noteq> CHR ''-''"
  using xvalues_hextable high_nibble_less [of v] low_nibble_less [of v]
  by (simp_all add: hex_hi_def hex_lo_def)

lemma length_EncodeToString_hex: "length (EncodeToString_hex bs) = 2 * length bs"
  by (induction bs) simp_all

lemma EncodeToString_hex_no_hyphen: "\<forall>c \<in> set (EncodeToString_hex bs). c \<noteq> CHR ''-''"
  by (induction bs) (simp_all add: EncodeToString_hex_Cons hex_digit_not_hyphen del: EncodeToString_hex.simps(2))

lemma EncodeToString_hex_nth_no_hyphen:
  "i < 2 * length bs \<Longrightarrow> EncodeToString_hex bs ! i \<noteq> CHR ''-''"
  using EncodeToString_hex_no_hyphen [of bs] nth_mem [of i "EncodeToString_hex bs"]
  by (simp add: length_EncodeToString_hex)

subsection \<open>Parsing what \<open>String\<close> and \<open>hex.EncodeToString\<close> write\<close>

lemma length_16_elems:
  assumes "length (u :: 'a list) = 16"
  obtains b0 b1 b2 b3 b4 b5 b6 b7 b8 b9 b10 b11 b12 b13 b14 b15
  where "u = [b0, b1, b2, b3, b4, b5, b6, b7, b8, b9, b10, b11, b12, b13, b14, b15]"
proof -
  from assms have "length u = Suc (Suc (Suc (Suc (Suc (Suc (Suc (Suc (Suc (Suc (Suc (Suc (Suc (Suc (Suc (Suc 0)))))))))))))))"
    by simp
  then show ?thesis
    by (auto simp add: length_Suc_conv intro: that)
qed

lemma Parse_String_UUID: "length u = 16 \<Longrightarrow> Parse (String_UUID u) = Inr u"
proof -
  assume "length u = 16"
  then obtain b0 b1 b2 b3 b4 b5 b6 b7 b8 b9 b10 b11 b12 b13 b14 b15
    where u: "u = [b0, b1, b2, b3, b4, b5, b6, b7, b8, b9, b10, b11, b12, b13, b14, b15]"
    by (rule length_16_elems)
  show ?thesis
    unfolding u
    by (simp add: Parse_def String_UUID_def parse_hyphenated_def xtob_hex_digits
        EncodeToString_hex_Cons del: EncodeToString_hex.simps(2))
qed

lemma Parse_EncodeToString_hex_16:
  "length bs = 16 \<Longrightarrow> Parse (EncodeToString_hex bs) = Inr bs"
proof -
  assume "length bs = 16"
  then obtain b0 b1 b2 b3 b4 b5 b6 b7 b8 b9 b10 b11 b12 b13 b14 b15
    where u: "bs = [b0, b1, b2, b3, b4, b5, b6, b7, b8, b9, b10, b11, b12, b13, b14, b15]"
    by (rule length_16_elems)
  show ?thesis
    unfolding u
    by (simp add: Parse_def xtob_hex_digits
        EncodeToString_hex_Cons del: EncodeToString_hex.simps(2))
qed

lemma Parse_EncodeToString_hex_other:
  assumes "length bs \<noteq> 16"
  shows "\<exists>err. Parse (EncodeToString_hex bs) = Inl err"
proof -
  let ?s = "EncodeToString_hex bs"
  have len: "length ?s = 2 * length bs" by (rule length_EncodeToString_hex)
  consider "length bs = 18" | "length bs = 19" | "length bs \<noteq> 18 \<and> length bs \<noteq> 19"
    by blast
  then show ?thesis
  proof cases
    case 1
    then have "?s ! 8 \<noteq> CHR ''-''" by (simp add: EncodeToString_hex_nth_no_hyphen)
    with 1 len show ?thesis by (simp add: Parse_def parse_hyphenated_def)
  next
    case 2
    then have "?s ! 9 \<noteq> CHR ''-''" by (simp add: EncodeToString_hex_nth_no_hyphen)
    moreover from 2 len have "drop 1 ?s ! 8 = ?s ! 9" by simp
    ultimately show ?thesis using 2 len by (simp add: Parse_def parse_hyphenated_def)
  next
    case 3
    with assms len have "length ?s \<noteq> 36" "length ?s \<noteq> 36 + 9" "length ?s \<noteq> 36 + 2" "length ?s \<noteq> 32"
      by presburger+
    then show ?thesis by (simp add: Parse_def)
  qed
qed

lemma length_xtob_at: "xtob_at s xs = Inr uuid \<Longrightarrow> length uuid = length xs"
  by (induction xs arbitrary: uuid) (auto split: prod.splits if_splits sum.splits)

lemma length_Parse: "Parse s = Inr uuid \<Longrightarrow> length uuid = 16"
  by (auto simp add: Parse_def parse_hyphenated_def simp del: xtob_at.simps
      split: if_splits dest!: length_xtob_at)

lemma UUID_ID_Nil: "UUID_ID Nil_UUID = 0"
  by (simp add: UUID_ID_def Nil_UUID_def)

subsection \<open>Decoding what \<open>EncodeToString\<close> writes\<close>

lemma index_of_nth:
  "distinct xs \<Longrightarrow> i < length xs \<Longrightarrow> index_of (xs ! i) xs k = Some (k + i)"
proof (induction xs arbitrary: i k)
  case Nil
  then show ?case by simp
next
  case (Cons x xs)
  show ?case
  proof (cases i)
    case 0
    then show ?thesis by simp
  next
    case (Suc j)
    with Cons.prems have "xs ! j \<in> set xs" "x \<notin> set xs" by auto
    then have "x \<noteq> xs ! j" by auto
    with Cons Suc show ?thesis by simp
  qed
qed

lemma distinct_encodeStd: "distinct encodeStd"
  by (simp add: encodeStd_def)

lemma length_encodeStd: "length encodeStd = 64"
  by (simp add: encodeStd_def)

lemma decodeMap_encodeStd: "i < 64 \<Longrightarrow> decodeMap (encodeStd ! i) = of_nat i"
  using index_of_nth [OF distinct_encodeStd, of i 0]
  by (simp add: decodeMap_def length_encodeStd)

lemma decodeMap_padChar: "decodeMap padChar = 0xff"
  by (simp add: decodeMap_def padChar_def encodeStd_def)

lemma sextet_eq: "(x :: uint32) AND 0x3F = take_bit 6 x"
  by (simp add: take_bit_eq_mask mask_eq_exp_minus_1)

lemma sextet_less: "unat ((x :: uint32) AND 0x3F) < 64"
proof -
  have "unat (x AND 0x3F) = take_bit 6 (unat x)"
    by (simp only: sextet_eq unsigned_take_bit_eq)
  then show ?thesis by (simp add: take_bit_eq_mod)
qed

lemma decodeMap_enc: "decodeMap (enc x) = sextet x"
  using decodeMap_encodeStd [OF sextet_less [of x]]
  by (simp add: enc_def sextet_def sextet_eq)

lemma sextet_not_ff: "sextet x \<noteq> 0xff"
proof
  assume "sextet x = 0xff"
  then have "bit (sextet x) 7 = bit (0xff :: byte) 7" by simp
  then show False by (simp add: sextet_def bit_simps)
qed

lemma ucast_sextet: "(ucast (sextet x) :: uint32) = take_bit 6 x"
  unfolding sextet_def by (rule bit_word_eqI) (auto simp add: bit_simps)

lemma take_bit_glue:
  fixes w :: "'a::len word"
  shows "push_bit k (take_bit m (drop_bit k w)) OR take_bit k w = take_bit (k + m) w"
  by (rule bit_word_eqI) (auto simp add: bit_simps)

lemma sextets_glue:
  fixes val :: uint32
  shows "push_bit 18 (take_bit 6 (drop_bit 18 val)) OR push_bit 12 (take_bit 6 (drop_bit 12 val)) OR
         push_bit 6 (take_bit 6 (drop_bit 6 val)) OR take_bit 6 val = take_bit 24 val"
  using take_bit_glue [of 6 6 val] take_bit_glue [of 12 6 val] take_bit_glue [of 18 6 val]
  by simp

lemma byte_bit_small: "bit (b :: byte) n \<Longrightarrow> n < 8"
  by (auto dest: bit_imp_le_length)

lemma val3_bytes:
  "(ucast (drop_bit 16 (val3 b0 b1 b2)) :: byte) = b0"
  "(ucast (drop_bit 8 (val3 b0 b1 b2)) :: byte) = b1"
  "(ucast (val3 b0 b1 b2) :: byte) = b2"
  unfolding val3_def
  by (rule bit_word_eqI; auto simp add: bit_simps dest: byte_bit_small)+

lemma val3_take_bit: "take_bit 24 (val3 b0 b1 b2) = val3 b0 b1 b2"
  unfolding val3_def
  by (rule bit_word_eqI) (auto simp add: bit_simps dest: byte_bit_small)

lemma val3_low: "take_bit 6 (val3 b0 b1 0) = 0" "take_bit 6 (drop_bit 6 (val3 b0 0 0)) = 0"
  unfolding val3_def
  by (rule bit_word_eqI; auto simp add: bit_simps dest: byte_bit_small)+

lemma quantum_bytes_4_eq:
  "quantum_bytes [a, b, c, e] =
     (let val = (push_bit 18 (ucast a) OR push_bit 12 (ucast b) OR push_bit 6 (ucast c) OR ucast e :: uint32)
      in [ucast (drop_bit 16 val), ucast (drop_bit 8 val), ucast val])"
  by (simp add: quantum_bytes_def Let_def)

lemma quantum_bytes_3_eq:
  "quantum_bytes [a, b, c] =
     (let val = (push_bit 18 (ucast a) OR push_bit 12 (ucast b) OR push_bit 6 (ucast c) OR 0 :: uint32)
      in [ucast (drop_bit 16 val), ucast (drop_bit 8 val)])"
  by (simp add: quantum_bytes_def Let_def)

lemma quantum_bytes_2_eq:
  "quantum_bytes [a, b] =
     (let val = (push_bit 18 (ucast a) OR push_bit 12 (ucast b) OR push_bit 6 0 OR 0 :: uint32)
      in [ucast (drop_bit 16 val)])"
  by (simp add: quantum_bytes_def Let_def)

lemma quantum_bytes_4:
  "quantum_bytes [sextet (drop_bit 18 (val3 b0 b1 b2)), sextet (drop_bit 12 (val3 b0 b1 b2)),
                  sextet (drop_bit 6 (val3 b0 b1 b2)), sextet (val3 b0 b1 b2)] = [b0, b1, b2]"
  unfolding quantum_bytes_4_eq Let_def ucast_sextet sextets_glue val3_take_bit val3_bytes
  by (rule refl)

lemma quantum_bytes_3:
  "quantum_bytes [sextet (drop_bit 18 (val3 b0 b1 0)), sextet (drop_bit 12 (val3 b0 b1 0)),
                  sextet (drop_bit 6 (val3 b0 b1 0))] = [b0, b1]"
proof -
  have "push_bit 18 (take_bit 6 (drop_bit 18 (val3 b0 b1 0))) OR
        push_bit 12 (take_bit 6 (drop_bit 12 (val3 b0 b1 0))) OR
        push_bit 6 (take_bit 6 (drop_bit 6 (val3 b0 b1 0))) OR take_bit 6 (val3 b0 b1 0)
        = val3 b0 b1 0"
    unfolding sextets_glue val3_take_bit by (rule refl)
  then have "push_bit 18 (take_bit 6 (drop_bit 18 (val3 b0 b1 0))) OR
        push_bit 12 (take_bit 6 (drop_bit 12 (val3 b0 b1 0))) OR
        push_bit 6 (take_bit 6 (drop_bit 6 (val3 b0 b1 0))) OR 0
        = val3 b0 b1 0"
    by (simp only: val3_low)
  then show ?thesis
    unfolding quantum_bytes_3_eq Let_def ucast_sextet
    by (simp only: val3_bytes)
qed

lemma quantum_bytes_2:
  "quantum_bytes [sextet (drop_bit 18 (val3 b0 0 0)), sextet (drop_bit 12 (val3 b0 0 0))] = [b0]"
proof -
  have "push_bit 18 (take_bit 6 (drop_bit 18 (val3 b0 0 0))) OR
        push_bit 12 (take_bit 6 (drop_bit 12 (val3 b0 0 0))) OR
        push_bit 6 (take_bit 6 (drop_bit 6 (val3 b0 0 0))) OR take_bit 6 (val3 b0 0 0)
        = val3 b0 0 0"
    unfolding sextets_glue val3_take_bit by (rule refl)
  then have "push_bit 18 (take_bit 6 (drop_bit 18 (val3 b0 0 0))) OR
        push_bit 12 (take_bit 6 (drop_bit 12 (val3 b0 0 0))) OR push_bit 6 0 OR (0 :: uint32)
        = val3 b0 0 0"
    by (simp only: val3_low)
  then show ?thesis
    unfolding quantum_bytes_2_eq Let_def ucast_sextet
    by (simp only: val3_bytes)
qed

lemma Decode_quantum:
  "Decode (enc x0 # enc x1 # enc x2 # enc x3 # src) [] =
     (case Decode src [] of
        (bs, err) \<Rightarrow> (quantum_bytes [sextet x0, sextet x1, sextet x2, sextet x3] @ bs, err))"
  by (simp add: decodeMap_enc sextet_not_ff)

lemma not_newline_padChar: "\<not> is_newline padChar"
  by (simp add: is_newline_def padChar_def)

lemma Decode_quantum_3:
  "Decode [enc x0, enc x1, enc x2, padChar] [] = (quantum_bytes [sextet x0, sextet x1, sextet x2], None)"
  by (simp add: decodeMap_enc sextet_not_ff decodeMap_padChar not_newline_padChar padding_def)

lemma Decode_quantum_2:
  "Decode [enc x0, enc x1, padChar, padChar] [] = (quantum_bytes [sextet x0, sextet x1], None)"
  by (simp add: decodeMap_enc sextet_not_ff decodeMap_padChar not_newline_padChar padding_def)

lemma EncodeToString_val3:
  "EncodeToString (b0 # b1 # b2 # src) =
     enc (drop_bit 18 (val3 b0 b1 b2)) # enc (drop_bit 12 (val3 b0 b1 b2)) #
     enc (drop_bit 6 (val3 b0 b1 b2)) # enc (val3 b0 b1 b2) # EncodeToString src"
  "EncodeToString [b0, b1] =
     [enc (drop_bit 18 (val3 b0 b1 0)), enc (drop_bit 12 (val3 b0 b1 0)),
      enc (drop_bit 6 (val3 b0 b1 0)), padChar]"
  "EncodeToString [b0] =
     [enc (drop_bit 18 (val3 b0 0 0)), enc (drop_bit 12 (val3 b0 0 0)), padChar, padChar]"
  by (simp_all add: val3_def Let_def)

lemma Decode_EncodeToString: "Decode (EncodeToString bs) [] = (bs, None)"
proof (induction bs rule: EncodeToString.induct)
  case (1 b0 b1 b2 src)
  then show ?case
    by (simp only: EncodeToString_val3 Decode_quantum quantum_bytes_4) simp
next
  case (2 b0 b1)
  show ?case
    by (simp only: EncodeToString_val3 Decode_quantum_3 quantum_bytes_3)
next
  case (3 b0)
  show ?case
    by (simp only: EncodeToString_val3 Decode_quantum_2 quantum_bytes_2)
next
  case 4
  show ?case by simp
qed

lemma DecodeString_EncodeToString: "DecodeString (EncodeToString bs) = (bs, None)"
  by (simp add: DecodeString_def Decode_EncodeToString)

lemma DecodeString_String_Base64: "DecodeString (String_Base64 b) = (data b, None)"
  by (simp add: String_Base64_def DecodeString_EncodeToString)

lemma NewBase64_data: "NewBase64 (data b) = b"
  by (simp add: NewBase64_def)

subsection \<open>Time\<close>

lemma time_Unix_roundtrip: "time_Unix (Unix t) (Nanosecond t) = t"
  by (simp add: time_Unix_def Unix_def Nanosecond_def)

section \<open>Properties of the legacy-U2F query\<close>

lemma HasFIDOU2F_loop_iff:
  "HasFIDOU2F_loop ds \<longleftrightarrow> (\<exists>c \<in> set ds. AttestationType c = attestationTypeFIDOU2F)"
  by (induction ds) auto

text \<open>
  C9: \<open>HasFIDOU2F\<close> returns true if and only if at least one device of the user has
  the attestation type \<open>fido-u2f\<close>; for a user without devices it returns false.
\<close>

theorem HasFIDOU2F_iff_some_device:
  "(HasFIDOU2F w \<longleftrightarrow> (\<exists>c \<in> set (Devices w). AttestationType c = ''fido-u2f'')) \<and>
   (Devices w = [] \<longrightarrow> \<not> HasFIDOU2F w)"
  by (simp add: HasFIDOU2F_def HasFIDOU2F_loop_iff attestationTypeFIDOU2F_def)

theorem HasFIDOU2F_iff_some_device_witness:
  "HasFIDOU2F \<lparr>User_Username = ''john'', DisplayName = ''John'',
               Devices = [zero_WebAuthnDevice\<lparr>AttestationType := ''packed''\<rparr>,
                          zero_WebAuthnDevice\<lparr>AttestationType := ''fido-u2f''\<rparr>]\<rparr> \<and>
   \<not> HasFIDOU2F \<lparr>User_Username = ''john'', DisplayName = ''John'',
               Devices = [zero_WebAuthnDevice\<lparr>AttestationType := ''packed''\<rparr>]\<rparr> \<and>
   \<not> HasFIDOU2F \<lparr>User_Username = ''john'', DisplayName = ''John'', Devices = []\<rparr>"
  using
    HasFIDOU2F_iff_some_device [of "\<lparr>User_Username = ''john'', DisplayName = ''John'',
               Devices = [zero_WebAuthnDevice\<lparr>AttestationType := ''packed''\<rparr>,
                          zero_WebAuthnDevice\<lparr>AttestationType := ''fido-u2f''\<rparr>]\<rparr>"]
    HasFIDOU2F_iff_some_device [of "\<lparr>User_Username = ''john'', DisplayName = ''John'',
               Devices = [zero_WebAuthnDevice\<lparr>AttestationType := ''packed''\<rparr>]\<rparr>"]
    HasFIDOU2F_iff_some_device [of "\<lparr>User_Username = ''john'', DisplayName = ''John'', Devices = []\<rparr>"]
  by (simp add: zero_WebAuthnDevice_def)

section \<open>Properties of the sign-in updater\<close>

lemma sign_ins_RPID_kept: "RPID d \<noteq> [] \<Longrightarrow> RPID (sign_ins calls d) = RPID d"
proof (induction calls arbitrary: d)
  case Nil
  then show ?case by simp
next
  case (Cons call calls)
  obtain config now signCount where call: "call = (config, now, signCount)"
    by (cases call) auto
  have kept: "RPID (UpdateSignInInfo config now signCount d) = RPID d"
    using Cons.prems by (simp add: UpdateSignInInfo_def Let_def)
  with Cons.prems have "RPID (UpdateSignInInfo config now signCount d) \<noteq> []" by simp
  from Cons.IH [OF this] kept call show ?case by simp
qed

text \<open>
  C4: \<open>UpdateSignInInfo\<close> assigns the RPID only when it is empty: the configured
  origin for the attestation type \<open>fido-u2f\<close>, the configured relying-party id for
  every other type. A non-empty RPID is left as it is by the call, and by every sequence
  of later calls, whatever their configurations.
\<close>

theorem UpdateSignInInfo_rpid_once:
  "(RPID d = [] \<longrightarrow>
      RPID (UpdateSignInInfo config now signCount d) =
        (if AttestationType d = ''fido-u2f'' then Config_RPOrigin config else Config_RPID config)) \<and>
   (RPID d \<noteq> [] \<longrightarrow> RPID (UpdateSignInInfo config now signCount d) = RPID d) \<and>
   (RPID d \<noteq> [] \<longrightarrow> RPID (sign_ins calls d) = RPID d)"
  by (simp add: UpdateSignInInfo_def Let_def attestationTypeFIDOU2F_def sign_ins_RPID_kept)

theorem UpdateSignInInfo_rpid_once_witness:
  "RPID (UpdateSignInInfo \<lparr>Config_RPID = ''example.com'', Config_RPOrigin = ''https://example.com''\<rparr> 5 7
           (zero_WebAuthnDevice\<lparr>AttestationType := ''fido-u2f''\<rparr>)) = ''https://example.com'' \<and>
   RPID (UpdateSignInInfo \<lparr>Config_RPID = ''example.com'', Config_RPOrigin = ''https://example.com''\<rparr> 5 7
           (zero_WebAuthnDevice\<lparr>AttestationType := ''packed''\<rparr>)) = ''example.com'' \<and>
   RPID (UpdateSignInInfo \<lparr>Config_RPID = ''other.org'', Config_RPOrigin = ''https://other.org''\<rparr> 6 8
           (zero_WebAuthnDevice\<lparr>AttestationType := ''fido-u2f'', RPID := ''https://example.com''\<rparr>))
     = ''https://example.com'' \<and>
   RPID (sign_ins [(\<lparr>Config_RPID = ''other.org'', Config_RPOrigin = ''https://other.org''\<rparr>, 6, 8),
                   (\<lparr>Config_RPID = ''third.net'', Config_RPOrigin = ''https://third.net''\<rparr>, 7, 9)]
           (zero_WebAuthnDevice\<lparr>AttestationType := ''fido-u2f'', RPID := ''https://example.com''\<rparr>))
     = ''https://example.com''"
  using
    UpdateSignInInfo_rpid_once [of "zero_WebAuthnDevice\<lparr>AttestationType := ''fido-u2f''\<rparr>"
      "\<lparr>Config_RPID = ''example.com'', Config_RPOrigin = ''https://example.com''\<rparr>" 5 7 "[]"]
    UpdateSignInInfo_rpid_once [of "zero_WebAuthnDevice\<lparr>AttestationType := ''packed''\<rparr>"
      "\<lparr>Config_RPID = ''example.com'', Config_RPOrigin = ''https://example.com''\<rparr>" 5 7 "[]"]
    UpdateSignInInfo_rpid_once [of
      "zero_WebAuthnDevice\<lparr>AttestationType := ''fido-u2f'', RPID := ''https://example.com''\<rparr>"
      "\<lparr>Config_RPID = ''other.org'', Config_RPOrigin = ''https://other.org''\<rparr>" 6 8
      "[(\<lparr>Config_RPID = ''other.org'', Config_RPOrigin = ''https://other.org''\<rparr>, 6, 8),
        (\<lparr>Config_RPID = ''third.net'', Config_RPOrigin = ''https://third.net''\<rparr>, 7, 9)]"]
  by (simp add: zero_WebAuthnDevice_def)

text \<open>
  C7: \<open>UpdateSignInInfo\<close> always sets \<open>LastUsedAt\<close> to the given time, marked
  valid, and \<open>SignCount\<close> to the reported counter, whatever the device held before
  and whether or not the RPID was assigned.
\<close>

theorem UpdateSignInInfo_overwrites:
  "LastUsedAt (UpdateSignInInfo config now signCount d) =
     \<lparr>NullTime_Time = now, NullTime_Valid = True\<rparr> \<and>
   SignCount (UpdateSignInInfo config now signCount d) = signCount"
  by (simp add: UpdateSignInInfo_def Let_def)

text \<open>
  C10: \<open>UpdateSignInInfo\<close> changes no field other than \<open>LastUsedAt\<close>,
  \<open>SignCount\<close> and \<open>RPID\<close>.
\<close>

theorem UpdateSignInInfo_frame:
  "ID (UpdateSignInInfo config now signCount d) = ID d \<and>
   CreatedAt (UpdateSignInInfo config now signCount d) = CreatedAt d \<and>
   Username (UpdateSignInInfo config now signCount d) = Username d \<and>
   Description (UpdateSignInInfo config now signCount d) = Description d \<and>
   KID (UpdateSignInInfo config now signCount d) = KID d \<and>
   PublicKey (UpdateSignInInfo config now signCount d) = PublicKey d \<and>
   AttestationType (UpdateSignInInfo config now signCount d) = AttestationType d \<and>
   Transport (UpdateSignInInfo config now signCount d) = Transport d \<and>
   AAGUID (UpdateSignInInfo config now signCount d) = AAGUID d \<and>
   CloneWarning (UpdateSignInInfo config now signCount d) = CloneWarning d"
  by (simp add: UpdateSignInInfo_def Let_def)

section \<open>Properties of the user adapter\<close>

lemma transport_loop_eq: "transport_loop ts acc = acc @ filter (\<lambda>t. t \<noteq> []) ts"
  by (induction ts arbitrary: acc) auto

lemma MarshalBinary_no_error: "\<exists>aaguid. MarshalBinary nu = Inr aaguid"
  by (simp add: MarshalBinary_def)

text \<open>
  The loop fills the entries it was given in order: the entry of a device is its
  translation, or stays zero-valued where the marshaller fails. No entry is removed.
\<close>

lemma WebAuthnCredentials_loop_eq:
  "WebAuthnCredentials_loop marshal (length pre) ds (pre @ replicate (length ds) zero_Credential) =
     pre @ map (entry_of marshal) ds"
proof (induction ds arbitrary: pre)
  case Nil
  then show ?case by simp
next
  case (Cons device ds)
  let ?rest = "replicate (length ds) zero_Credential"
  show ?case
  proof (cases "marshal (AAGUID device)")
    case (Inl err)
    from Cons.IH [of "pre @ [zero_Credential]"] Inl show ?thesis
      by (simp add: entry_of_def)
  next
    case (Inr aaguid)
    let ?c = "translated aaguid device"
    have "(pre @ zero_Credential # ?rest)[length pre := ?c] = (pre @ [?c]) @ ?rest"
      by simp
    with Cons.IH [of "pre @ [?c]"] Inr show ?thesis
      by (simp add: entry_of_def translated_def transports_spec_def transport_loop_eq)
  qed
qed

lemma WebAuthnCredentials_with_eq_map:
  "WebAuthnCredentials_with marshal w = map (entry_of marshal) (Devices w)"
  using WebAuthnCredentials_loop_eq [of marshal "[]" "Devices w"]
  by (simp add: WebAuthnCredentials_with_def)

lemma WebAuthnCredentials_eq_map:
  "WebAuthnCredentials w = map (entry_of MarshalBinary) (Devices w)"
  by (simp add: WebAuthnCredentials_def WebAuthnCredentials_with_eq_map)

lemma Credential_Transport_entry_of:
  "Credential_Transport (entry_of MarshalBinary d) =
     filter (\<lambda>t. t \<noteq> []) (Split (Transport d) (CHR '',''))"
  using MarshalBinary_no_error [of "AAGUID d"]
  by (auto simp add: entry_of_def translated_def transports_spec_def)

text \<open>
  What \<open>strings.Join\<close> writes from tokens that are not empty and hold no comma, the
  translation reads back: the transports of a registration survive the stored form.
\<close>

lemma Split_from_token:
  "sep \<notin> set t \<Longrightarrow> Split_from sep tok (t @ cs) = Split_from sep (tok @ t) cs"
  by (induction t arbitrary: tok) auto

lemma Split_from_Join:
  "ts \<noteq> [] \<Longrightarrow> \<forall>t \<in> set ts. sep \<notin> set t \<Longrightarrow>
   Split_from sep tok (Join ts [sep]) = (tok @ hd ts) # tl ts"
proof (induction ts "[sep]" arbitrary: tok rule: Join.induct)
  case 1
  then show ?case by simp
next
  case (2 e)
  then show ?case using Split_from_token [of sep e tok "[]"] by simp
next
  case (3 e v va)
  from 3 have "Split_from sep [] (Join (v # va) [sep]) = ([] @ hd (v # va)) # tl (v # va)"
    by simp
  with 3 show ?case using Split_from_token [of sep e tok "sep # Join (v # va) [sep]"] by simp
qed

lemma transports_spec_Join:
  assumes "\<forall>t \<in> set ts. t \<noteq> [] \<and> CHR '','' \<notin> set t"
  shows "transports_spec (Join ts '','') = ts"
proof (cases ts)
  case Nil
  then show ?thesis by (simp add: transports_spec_def Split_def)
next
  case (Cons t ts')
  with assms have "Split_from (CHR '','') [] (Join ts '','') = ([] @ hd ts) # tl ts"
    using Split_from_Join [of ts "CHR '',''" "[]"] by simp
  with Cons assms show ?thesis
    by (simp add: transports_spec_def Split_def filter_id_conv)
qed


text \<open>
  C8: the transport list of every translated credential is the stored transport string
  split at the commas, without the empty tokens, in the stored order. It never holds an
  empty token; \<open>usb,nfc\<close> gives the list of \<open>usb\<close> and \<open>nfc\<close>, and the
  empty string gives the empty list.
\<close>

theorem WebAuthnCredentials_transport:
  "map Credential_Transport (WebAuthnCredentials w) =
     map (\<lambda>device. filter (\<lambda>t. t \<noteq> []) (Split (Transport device) (CHR '','')))
       (Devices w) \<and>
   (\<forall>credential \<in> set (WebAuthnCredentials w). [] \<notin> set (Credential_Transport credential)) \<and>
   (Devices w = [device] \<and> Transport device = ''usb,nfc'' \<longrightarrow>
      map Credential_Transport (WebAuthnCredentials w) = [[''usb'', ''nfc'']]) \<and>
   (Devices w = [device] \<and> Transport device = [] \<longrightarrow>
      map Credential_Transport (WebAuthnCredentials w) = [[]])"
  by (auto simp: WebAuthnCredentials_eq_map Credential_Transport_entry_of Split_def)

theorem WebAuthnCredentials_transport_witness:
  "map Credential_Transport
     (WebAuthnCredentials \<lparr>User_Username = ''john'', DisplayName = ''John'',
        Devices = [zero_WebAuthnDevice\<lparr>Transport := ''usb,nfc''\<rparr>]\<rparr>) = [[''usb'', ''nfc'']] \<and>
   map Credential_Transport
     (WebAuthnCredentials \<lparr>User_Username = ''john'', DisplayName = ''John'',
        Devices = [zero_WebAuthnDevice\<lparr>Transport := []\<rparr>]\<rparr>) = [[]]"
proof -
  let ?d1 = "zero_WebAuthnDevice\<lparr>Transport := ''usb,nfc''\<rparr>"
  let ?d2 = "zero_WebAuthnDevice\<lparr>Transport := []\<rparr>"
  let ?w1 = "\<lparr>User_Username = ''john'', DisplayName = ''John'', Devices = [?d1]\<rparr>"
  let ?w2 = "\<lparr>User_Username = ''john'', DisplayName = ''John'', Devices = [?d2]\<rparr>"
  have h1: "Devices ?w1 = [?d1] \<and> Transport ?d1 = ''usb,nfc''" by simp
  have h2: "Devices ?w2 = [?d2] \<and> Transport ?d2 = []" by simp
  from WebAuthnCredentials_transport [of ?w1 ?d1] h1
  have r1: "map Credential_Transport (WebAuthnCredentials ?w1) = [[''usb'', ''nfc'']]" by blast
  from WebAuthnCredentials_transport [of ?w2 ?d2] h2
  have r2: "map Credential_Transport (WebAuthnCredentials ?w2) = [[]]" by blast
  from r1 r2 show ?thesis by blast
qed

section \<open>Properties of the device constructor\<close>

lemma NewWebAuthnDeviceFromCredential_AAGUID:
  "AAGUID (NewWebAuthnDeviceFromCredential rpid username description credential now) =
     (if length (Authenticator_AAGUID (Credential_Authenticator credential)) = 16 \<and>
         UUID_ID (Authenticator_AAGUID (Credential_Authenticator credential)) \<noteq> 0
      then \<lparr>NullUUID_UUID = Authenticator_AAGUID (Credential_Authenticator credential),
            NullUUID_Valid = True\<rparr>
      else zero_NullUUID)"
proof (cases "length (Authenticator_AAGUID (Credential_Authenticator credential)) = 16")
  case True
  from Parse_EncodeToString_hex_16 [OF this] True show ?thesis
    by (simp add: NewWebAuthnDeviceFromCredential_def Let_def)
next
  case False
  from Parse_EncodeToString_hex_other [OF this] False show ?thesis
    by (auto simp add: NewWebAuthnDeviceFromCredential_def Let_def)
qed

text \<open>The constructor and the sign-in updater give valid devices.\<close>

lemma valid_device_NewWebAuthnDeviceFromCredential:
  "valid_device (NewWebAuthnDeviceFromCredential rpid username description credential now)"
proof -
  have "LastUsedAt (NewWebAuthnDeviceFromCredential rpid username description credential now)
        = zero_NullTime"
    by (simp add: NewWebAuthnDeviceFromCredential_def Let_def split: sum.splits)
  then show ?thesis
    by (simp add: valid_device_def NewWebAuthnDeviceFromCredential_AAGUID zero_NullUUID_def
        zero_NullTime_def Nil_UUID_def)
qed

lemma valid_device_UpdateSignInInfo:
  "valid_device d \<Longrightarrow> valid_device (UpdateSignInInfo config now signCount d)"
  by (auto simp add: valid_device_def UpdateSignInInfo_def Let_def split: if_splits)

text \<open>
  C3: the claim is that the constructor marks the aaguid valid exactly when its bytes
  parse as a UUID other than the all-zero one. The constructor tests
  \<open>aaguid.ID() != 0\<close>, and \<open>ID\<close> reads the first four bytes only: for the
  sixteen bytes \<open>00 00 00 00 01 02 ... 0c\<close>, which parse and are not the all-zero
  UUID, the device is returned with its aaguid unset.
\<close>

theorem NewWebAuthnDeviceFromCredential_drops_nonzero_aaguid:
  "Parse (EncodeToString_hex [0, 0, 0, 0, 1, 2, 3, 4, 5, 6, 7, 8, 9, 10, 11, 12]) =
     Inr [0, 0, 0, 0, 1, 2, 3, 4, 5, 6, 7, 8, 9, 10, 11, 12] \<and>
   [0, 0, 0, 0, 1, 2, 3, 4, 5, 6, 7, 8, 9, 10, 11, 12] \<noteq> Nil_UUID \<and>
   AAGUID (NewWebAuthnDeviceFromCredential ''example.com'' ''john'' ''Primary''
     \<lparr>Credential_ID = [1, 2, 3, 4], Credential_PublicKey = [5, 6, 7, 8],
      Credential_AttestationType = ''packed'', Credential_Transport = [''usb'', ''nfc''],
      Credential_Authenticator =
        \<lparr>Authenticator_AAGUID = [0, 0, 0, 0, 1, 2, 3, 4, 5, 6, 7, 8, 9, 10, 11, 12],
         Authenticator_SignCount = 0, Authenticator_CloneWarning = False\<rparr>\<rparr>
     1700000000000000000) = \<lparr>NullUUID_UUID = Nil_UUID, NullUUID_Valid = False\<rparr>"
proof -
  let ?a = "[0, 0, 0, 0, 1, 2, 3, 4, 5, 6, 7, 8, 9, 10, 11, 12] :: byte list"
  have "length ?a = 16" by simp
  then have "Parse (EncodeToString_hex ?a) = Inr ?a" by (rule Parse_EncodeToString_hex_16)
  moreover have "?a \<noteq> Nil_UUID" by (simp add: Nil_UUID_def numeral_eq_Suc)
  moreover have "UUID_ID ?a = 0" by (simp add: UUID_ID_def)
  ultimately show ?thesis
    by (simp add: NewWebAuthnDeviceFromCredential_AAGUID zero_NullUUID_def)
qed

section \<open>Properties of the external codec\<close>

text \<open>A successful decode into a zero-valued device gives a valid device.\<close>

lemma valid_device_UnmarshalYAML:
  assumes "UnmarshalYAML zero_WebAuthnDevice node = (d, None)"
  shows "valid_device d"
proof -
  have z: "valid_device zero_WebAuthnDevice"
    by (simp add: valid_device_def zero_WebAuthnDevice_def zero_NullUUID_def zero_NullTime_def
        Nil_UUID_def)
  from assms show ?thesis
    by (auto simp add: UnmarshalYAML_def Let_def valid_device_def zero_WebAuthnDevice_def
        zero_NullUUID_def zero_NullTime_def Nil_UUID_def
        split: sum.splits prod.splits option.splits if_splits dest!: length_Parse)
qed

lemma UnmarshalYAML_ToData:
  assumes v: "valid_device d"
    and t1: "AAGUID t = zero_NullUUID" and t2: "LastUsedAt t = zero_NullTime"
  shows "UnmarshalYAML t (Inr (ToData d)) = (d\<lparr>ID := ID t\<rparr>, None)"
proof -
  obtain u uv where a: "AAGUID d = \<lparr>NullUUID_UUID = u, NullUUID_Valid = uv\<rparr>"
    by (cases "AAGUID d") auto
  obtain l lv where l: "LastUsedAt d = \<lparr>NullTime_Time = l, NullTime_Valid = lv\<rparr>"
    by (cases "LastUsedAt d") auto
  from v a have len: "length u = 16" by (simp add: valid_device_def)
  from v a have id: "if uv then UUID_ID u \<noteq> 0 else u = Nil_UUID"
    by (auto simp add: valid_device_def split: if_splits)
  from v l have lz: "lv \<or> l = zero_Time"
    by (auto simp add: valid_device_def split: if_splits)
  have p: "Parse (String_UUID u) = Inr u" using len by (rule Parse_String_UUID)
  show ?thesis
  proof (cases d)
    case (fields i ca la rp un de ki pk at tr aa sc cw)
    show ?thesis
    proof (cases t)
      case (fields i' ca' la' rp' un' de' ki' pk' at' tr' aa' sc' cw')
      from this \<open>d = _\<close> a l id lz t1 t2 p show ?thesis
        by (cases uv; cases lv)
          (simp_all add: UnmarshalYAML_def ToData_def LastUsed_def Let_def
            DecodeString_EncodeToString DecodeString_String_Base64 NewBase64_data
            time_Unix_roundtrip UUID_ID_Nil zero_NullUUID_def zero_NullTime_def)
    qed
  qed
qed

text \<open>
  C2, as amended: decoding the encoding of a valid device \<open>d\<close> into a target whose
  aaguid and \<open>LastUsedAt\<close> are zero-valued (a fresh device) returns no error and
  gives back every field of \<open>d\<close> but the id. \<open>WebAuthnDeviceData\<close> has no id
  field: the decoded device has the id of the target.
\<close>

theorem UnmarshalYAML_ToData_roundtrip:
  "valid_device d \<Longrightarrow> AAGUID t = zero_NullUUID \<Longrightarrow> LastUsedAt t = zero_NullTime \<Longrightarrow>
   UnmarshalYAML t (Inr (ToData d)) = (d\<lparr>ID := ID t\<rparr>, None)"
  by (rule UnmarshalYAML_ToData)

theorem UnmarshalYAML_ToData_roundtrip_witness:
  "valid_device
     \<lparr>ID = 0, CreatedAt = 1700000000000000000,
      LastUsedAt = \<lparr>NullTime_Time = 1700000000123456789, NullTime_Valid = True\<rparr>,
      RPID = ''example.com'', Username = ''john'', Description = ''Primary'',
      KID = Base64 [1, 2, 3, 4], PublicKey = [5, 6, 7, 8, 9], AttestationType = ''packed'',
      Transport = ''usb,nfc'',
      AAGUID = \<lparr>NullUUID_UUID = [1, 2, 3, 4, 5, 6, 7, 8, 9, 10, 11, 12, 13, 14, 15, 16],
                NullUUID_Valid = True\<rparr>,
      SignCount = 42, CloneWarning = False\<rparr> \<and>
   UnmarshalYAML zero_WebAuthnDevice (Inr (ToData
     \<lparr>ID = 0, CreatedAt = 1700000000000000000,
      LastUsedAt = \<lparr>NullTime_Time = 1700000000123456789, NullTime_Valid = True\<rparr>,
      RPID = ''example.com'', Username = ''john'', Description = ''Primary'',
      KID = Base64 [1, 2, 3, 4], PublicKey = [5, 6, 7, 8, 9], AttestationType = ''packed'',
      Transport = ''usb,nfc'',
      AAGUID = \<lparr>NullUUID_UUID = [1, 2, 3, 4, 5, 6, 7, 8, 9, 10, 11, 12, 13, 14, 15, 16],
                NullUUID_Valid = True\<rparr>,
      SignCount = 42, CloneWarning = False\<rparr>)) =
   (\<lparr>ID = 0, CreatedAt = 1700000000000000000,
      LastUsedAt = \<lparr>NullTime_Time = 1700000000123456789, NullTime_Valid = True\<rparr>,
      RPID = ''example.com'', Username = ''john'', Description = ''Primary'',
      KID = Base64 [1, 2, 3, 4], PublicKey = [5, 6, 7, 8, 9], AttestationType = ''packed'',
      Transport = ''usb,nfc'',
      AAGUID = \<lparr>NullUUID_UUID = [1, 2, 3, 4, 5, 6, 7, 8, 9, 10, 11, 12, 13, 14, 15, 16],
                NullUUID_Valid = True\<rparr>,
      SignCount = 42, CloneWarning = False\<rparr>, None) \<and>
   valid_device zero_WebAuthnDevice \<and>
   UnmarshalYAML zero_WebAuthnDevice (Inr (ToData zero_WebAuthnDevice)) =
     (zero_WebAuthnDevice, None)"
proof -
  let ?d = "\<lparr>ID = 0, CreatedAt = 1700000000000000000,
      LastUsedAt = \<lparr>NullTime_Time = 1700000000123456789, NullTime_Valid = True\<rparr>,
      RPID = ''example.com'', Username = ''john'', Description = ''Primary'',
      KID = Base64 [1, 2, 3, 4], PublicKey = [5, 6, 7, 8, 9], AttestationType = ''packed'',
      Transport = ''usb,nfc'',
      AAGUID = \<lparr>NullUUID_UUID = [1, 2, 3, 4, 5, 6, 7, 8, 9, 10, 11, 12, 13, 14, 15, 16],
                NullUUID_Valid = True\<rparr>,
      SignCount = 42, CloneWarning = False\<rparr>"
  have v: "valid_device ?d" by (simp add: valid_device_def UUID_ID_def)
  have t: "AAGUID zero_WebAuthnDevice = zero_NullUUID" "LastUsedAt zero_WebAuthnDevice = zero_NullTime"
    by (simp_all add: zero_WebAuthnDevice_def)
  have z: "valid_device zero_WebAuthnDevice"
    by (simp add: valid_device_def zero_WebAuthnDevice_def zero_NullUUID_def zero_NullTime_def
        Nil_UUID_def)
  from UnmarshalYAML_ToData_roundtrip [OF v t]
  have "UnmarshalYAML zero_WebAuthnDevice (Inr (ToData ?d)) = (?d\<lparr>ID := ID zero_WebAuthnDevice\<rparr>, None)" .
  then have 1: "UnmarshalYAML zero_WebAuthnDevice (Inr (ToData ?d)) = (?d, None)"
    by (simp add: zero_WebAuthnDevice_def)
  from UnmarshalYAML_ToData_roundtrip [OF z t]
  have 2: "UnmarshalYAML zero_WebAuthnDevice (Inr (ToData zero_WebAuthnDevice)) =
           (zero_WebAuthnDevice, None)"
    by simp
  from v z 1 2 show ?thesis by blast
qed

text \<open>
  C2 as stated fails: the valid device with id 1 and every other field zero-valued is
  not what decoding its encoding into a fresh device gives.
\<close>

theorem UnmarshalYAML_ToData_loses_ID:
  "valid_device (zero_WebAuthnDevice\<lparr>ID := 1\<rparr>) \<and>
   fst (UnmarshalYAML zero_WebAuthnDevice (Inr (ToData (zero_WebAuthnDevice\<lparr>ID := 1\<rparr>))))
     \<noteq> zero_WebAuthnDevice\<lparr>ID := 1\<rparr>"
proof -
  have v: "valid_device (zero_WebAuthnDevice\<lparr>ID := 1\<rparr>)"
    by (simp add: valid_device_def zero_WebAuthnDevice_def zero_NullUUID_def zero_NullTime_def
        Nil_UUID_def)
  have t: "AAGUID zero_WebAuthnDevice = zero_NullUUID" "LastUsedAt zero_WebAuthnDevice = zero_NullTime"
    by (simp_all add: zero_WebAuthnDevice_def)
  from UnmarshalYAML_ToData [OF v t] v show ?thesis
    by (simp add: zero_WebAuthnDevice_def)
qed

lemma UnmarshalYAML_invalid_publicKey:
  "\<not> valid_base64 (Data_PublicKey dat) \<Longrightarrow>
   \<exists>err. UnmarshalYAML d (Inr dat) =
     (d\<lparr>PublicKey := fst (DecodeString (Data_PublicKey dat))\<rparr>, Some err)"
  by (cases "DecodeString (Data_PublicKey dat)")
    (auto simp add: UnmarshalYAML_def valid_base64_def Let_def)

lemma UnmarshalYAML_invalid_AAGUID:
  "valid_base64 (Data_PublicKey dat) \<Longrightarrow> \<not> Parse_accepts (Data_AAGUID dat) \<Longrightarrow>
   \<exists>err. Parse (Data_AAGUID dat) = Inl err \<and>
     UnmarshalYAML d (Inr dat) =
       (d\<lparr>PublicKey := fst (DecodeString (Data_PublicKey dat))\<rparr>, Some err)"
  by (cases "DecodeString (Data_PublicKey dat)")
    (auto simp add: UnmarshalYAML_def valid_base64_def Parse_accepts_def Let_def
      split: sum.splits)

lemma UnmarshalYAML_invalid_KID:
  assumes pk: "valid_base64 (Data_PublicKey dat)"
    and ag: "Parse (Data_AAGUID dat) = Inr aaguid"
    and kid: "\<not> valid_base64 (Data_KID dat)"
  shows "\<exists>err. UnmarshalYAML d (Inr dat) =
     (d\<lparr>PublicKey := fst (DecodeString (Data_PublicKey dat)),
        AAGUID := (if UUID_ID aaguid \<noteq> 0
                   then \<lparr>NullUUID_UUID = aaguid, NullUUID_Valid = True\<rparr>
                   else AAGUID d)\<rparr>, Some err)"
proof -
  obtain bs where 1: "DecodeString (Data_PublicKey dat) = (bs, None)"
    using pk by (cases "DecodeString (Data_PublicKey dat)") (auto simp add: valid_base64_def)
  obtain ks err where 3: "DecodeString (Data_KID dat) = (ks, Some err)"
    using kid by (cases "DecodeString (Data_KID dat)") (auto simp add: valid_base64_def)
  show ?thesis
  proof (cases "UUID_ID aaguid \<noteq> 0")
    case True
    with 1 ag 3 have "UnmarshalYAML d (Inr dat) =
        (d\<lparr>PublicKey := bs, AAGUID := \<lparr>NullUUID_UUID = aaguid, NullUUID_Valid = True\<rparr>\<rparr>, Some err)"
      by (simp add: UnmarshalYAML_def Let_def)
    with 1 True show ?thesis by simp
  next
    case False
    with 1 ag 3 have "UnmarshalYAML d (Inr dat) = (d\<lparr>PublicKey := bs, AAGUID := AAGUID d\<rparr>, Some err)"
      by (simp add: UnmarshalYAML_def Let_def)
    with 1 False show ?thesis by simp
  qed
qed

text \<open>
  \<open>Parse\<close> accepts every syntactically valid UUID, so a text it rejects is not one. It
  accepts other texts as well (the counterexample of C5 below has one).
\<close>

lemma is_hex_digit_xvalues: "is_hex_digit c \<Longrightarrow> xvalues c \<noteq> 255"
  by (auto simp add: is_hex_digit_def xvalues_def)

lemma xtob_at_hex_digits:
  "\<forall>x \<in> set xs. is_hex_digit (s ! x) \<and> is_hex_digit (s ! (x + 1)) \<Longrightarrow>
   \<exists>uuid. xtob_at s xs = Inr uuid"
proof (induction xs)
  case Nil
  then show ?case by simp
next
  case (Cons x xs)
  then obtain uuid where "xtob_at s xs = Inr uuid" by auto
  moreover from Cons.prems have "xvalues (s ! x) \<noteq> 255" "xvalues (s ! (x + 1)) \<noteq> 255"
    by (simp_all add: is_hex_digit_xvalues)
  ultimately show ?case by (simp add: xtob_def Let_def)
qed

lemma syntactic_UUID_Parse_accepts: "syntactic_UUID s \<Longrightarrow> Parse_accepts s"
proof -
  assume v: "syntactic_UUID s"
  then have len: "length s = 36" by (simp add: syntactic_UUID_def)
  from v have form: "\<And>i. i < 36 \<Longrightarrow>
      (if i \<in> {8, 13, 18, 23} then s ! i = CHR ''-'' else is_hex_digit (s ! i))"
    by (simp add: syntactic_UUID_def list_all_iff)
  have hy: "s ! 8 = CHR ''-''" "s ! 13 = CHR ''-''" "s ! 18 = CHR ''-''" "s ! 23 = CHR ''-''"
    using form [of 8] form [of 13] form [of 18] form [of 23] by simp_all
  have "\<forall>x \<in> set [0, 2, 4, 6, 9, 11, 14, 16, 19, 21, 24, 26, 28, 30, 32, 34 :: nat].
          is_hex_digit (s ! x) \<and> is_hex_digit (s ! (x + 1))"
    using form [of 0] form [of 1] form [of 2] form [of 3] form [of 4] form [of 5] form [of 6]
      form [of 7] form [of 9] form [of 10] form [of 11] form [of 12] form [of 14] form [of 15]
      form [of 16] form [of 17] form [of 19] form [of 20] form [of 21] form [of 22]
      form [of 24] form [of 25] form [of 26] form [of 27] form [of 28] form [of 29]
      form [of 30] form [of 31] form [of 32] form [of 33] form [of 34] form [of 35]
    by simp
  from xtob_at_hex_digits [OF this] obtain uuid where
    "xtob_at s [0, 2, 4, 6, 9, 11, 14, 16, 19, 21, 24, 26, 28, 30, 32, 34] = Inr uuid" ..
  with len hy show ?thesis
    by (simp add: Parse_accepts_def Parse_def parse_hyphenated_def del: xtob_at.simps)
qed

text \<open>
  C5, as amended: when \<open>DecodeString\<close> rejects the public-key text or the kid text, or
  \<open>Parse\<close> rejects the aaguid text, \<open>UnmarshalYAML\<close> returns an error. It leaves the
  target with its public key overwritten by the bytes \<open>DecodeString\<close> delivered. The
  aaguid of the target is overwritten, by the parsed UUID marked valid, exactly when the
  public-key text was accepted and the aaguid text parsed to a UUID with a non-zero
  \<open>ID\<close> (so that only the kid text is invalid); otherwise it is as it was, and so is
  every other field of the target.
\<close>

theorem UnmarshalYAML_invalid_fails:
  assumes "\<not> valid_base64 (Data_PublicKey dat) \<or> \<not> valid_base64 (Data_KID dat) \<or>
           \<not> Parse_accepts (Data_AAGUID dat)"
  shows "\<exists>err. UnmarshalYAML d (Inr dat) =
           (d\<lparr>PublicKey := fst (DecodeString (Data_PublicKey dat)),
              AAGUID :=
                (if valid_base64 (Data_PublicKey dat)
                 then (case Parse (Data_AAGUID dat) of
                         Inl e \<Rightarrow> AAGUID d
                       | Inr aaguid \<Rightarrow>
                           if UUID_ID aaguid \<noteq> 0
                           then \<lparr>NullUUID_UUID = aaguid, NullUUID_Valid = True\<rparr>
                           else AAGUID d)
                 else AAGUID d)\<rparr>,
            Some err)"
proof (cases "valid_base64 (Data_PublicKey dat)")
  case False
  from UnmarshalYAML_invalid_publicKey [OF this, of d] False show ?thesis by auto
next
  case pk: True
  show ?thesis
  proof (cases "Parse_accepts (Data_AAGUID dat)")
    case False
    from UnmarshalYAML_invalid_AAGUID [OF pk this, of d] pk show ?thesis by auto
  next
    case True
    then obtain aaguid where ag: "Parse (Data_AAGUID dat) = Inr aaguid"
      by (auto simp add: Parse_accepts_def split: sum.splits)
    from True pk assms have "\<not> valid_base64 (Data_KID dat)" by blast
    from UnmarshalYAML_invalid_KID [OF pk ag this, of d] pk ag show ?thesis by auto
  qed
qed

theorem UnmarshalYAML_invalid_fails_witness:
  "\<not> valid_base64 ''!'' \<and>
   UnmarshalYAML (zero_WebAuthnDevice\<lparr>PublicKey := [1], RPID := ''example.com''\<rparr>)
     (Inr (zero_WebAuthnDeviceData\<lparr>Data_PublicKey := ''!'', Data_RPID := ''other.org''\<rparr>)) =
   (zero_WebAuthnDevice\<lparr>PublicKey := [], RPID := ''example.com''\<rparr>, Some CorruptInputError) \<and>
   UnmarshalYAML (zero_WebAuthnDevice\<lparr>PublicKey := [1], RPID := ''example.com''\<rparr>)
     (Inr (zero_WebAuthnDeviceData
        \<lparr>Data_KID := ''!'', Data_AAGUID := ''01020304-0506-0708-090a-0b0c0d0e0f10''\<rparr>)) =
   (zero_WebAuthnDevice
      \<lparr>PublicKey := [], RPID := ''example.com'',
       AAGUID := \<lparr>NullUUID_UUID = [1, 2, 3, 4, 5, 6, 7, 8, 9, 10, 11, 12, 13, 14, 15, 16],
                  NullUUID_Valid = True\<rparr>\<rparr>,
    Some CorruptInputError)"
proof -
  let ?d = "zero_WebAuthnDevice\<lparr>PublicKey := [1], RPID := ''example.com''\<rparr>"
  let ?dat = "zero_WebAuthnDeviceData\<lparr>Data_PublicKey := ''!'', Data_RPID := ''other.org''\<rparr>"
  let ?dat' = "zero_WebAuthnDeviceData
        \<lparr>Data_KID := ''!'', Data_AAGUID := ''01020304-0506-0708-090a-0b0c0d0e0f10''\<rparr>"
  let ?u = "[1, 2, 3, 4, 5, 6, 7, 8, 9, 10, 11, 12, 13, 14, 15, 16] :: byte list"
  have bang: "DecodeString ''!'' = ([], Some CorruptInputError)"
    by (simp add: DecodeString_def decodeMap_def encodeStd_def is_newline_def padChar_def)
  have empty: "DecodeString [] = ([], None)"
    by (simp add: DecodeString_def)
  have inv: "\<not> valid_base64 ''!''" using bang by (simp add: valid_base64_def)
  have ok: "valid_base64 []" using empty by (simp add: valid_base64_def)
  have "length ?u = 16" by simp
  from Parse_String_UUID [OF this]
  have parse: "Parse ''01020304-0506-0708-090a-0b0c0d0e0f10'' = Inr ?u"
    by (simp add: String_UUID_def hextable_def)
  have id: "UUID_ID ?u \<noteq> 0" by (simp add: UUID_ID_def)
  have h: "\<not> valid_base64 (Data_PublicKey ?dat) \<or> \<not> valid_base64 (Data_KID ?dat) \<or>
           \<not> Parse_accepts (Data_AAGUID ?dat)"
    using inv by (simp add: zero_WebAuthnDeviceData_def)
  have h': "\<not> valid_base64 (Data_PublicKey ?dat') \<or> \<not> valid_base64 (Data_KID ?dat') \<or>
           \<not> Parse_accepts (Data_AAGUID ?dat')"
    using inv by (simp add: zero_WebAuthnDeviceData_def)
  from UnmarshalYAML_invalid_fails [OF h, of ?d] inv bang
  obtain err where 1: "UnmarshalYAML ?d (Inr ?dat) =
      (?d\<lparr>PublicKey := [], AAGUID := AAGUID ?d\<rparr>, Some err)"
    by (auto simp add: zero_WebAuthnDeviceData_def)
  have e1: "snd (UnmarshalYAML ?d (Inr ?dat)) = Some CorruptInputError"
    by (simp add: UnmarshalYAML_def zero_WebAuthnDeviceData_def bang)
  from UnmarshalYAML_invalid_fails [OF h', of ?d] ok empty parse id
  obtain err' where 2: "UnmarshalYAML ?d (Inr ?dat') =
      (?d\<lparr>PublicKey := [], AAGUID := \<lparr>NullUUID_UUID = ?u, NullUUID_Valid = True\<rparr>\<rparr>, Some err')"
    by (auto simp add: zero_WebAuthnDeviceData_def)
  have e2: "snd (UnmarshalYAML ?d (Inr ?dat')) = Some CorruptInputError"
    using id by (simp add: UnmarshalYAML_def zero_WebAuthnDeviceData_def bang empty parse Let_def)
  from 1 e1 have "UnmarshalYAML ?d (Inr ?dat) =
      (?d\<lparr>PublicKey := [], AAGUID := AAGUID ?d\<rparr>, Some CorruptInputError)" by simp
  moreover from 2 e2 have "UnmarshalYAML ?d (Inr ?dat') =
      (?d\<lparr>PublicKey := [], AAGUID := \<lparr>NullUUID_UUID = ?u, NullUUID_Valid = True\<rparr>\<rparr>,
       Some CorruptInputError)" by simp
  ultimately show ?thesis using inv
    by (simp add: zero_WebAuthnDevice_def)
qed

text \<open>
  C5 as stated fails twice. Decoding the public-key text \<open>!\<close> into a target whose
  public key is the byte 1 returns an error and leaves the target with an empty public
  key. And the aaguid text \<open>x01020304-0506-0708-090a-0b0c0d0e0f10y\<close> is not a
  syntactically valid UUID, but \<open>Parse\<close> does not look at the first and the last of its
  38 characters, and decoding returns no error.
\<close>

theorem UnmarshalYAML_failure_modifies_target:
  "\<not> valid_base64 ''!'' \<and>
   snd (UnmarshalYAML (zero_WebAuthnDevice\<lparr>PublicKey := [1]\<rparr>)
          (Inr (zero_WebAuthnDeviceData\<lparr>Data_PublicKey := ''!''\<rparr>))) = Some CorruptInputError \<and>
   fst (UnmarshalYAML (zero_WebAuthnDevice\<lparr>PublicKey := [1]\<rparr>)
          (Inr (zero_WebAuthnDeviceData\<lparr>Data_PublicKey := ''!''\<rparr>)))
     \<noteq> zero_WebAuthnDevice\<lparr>PublicKey := [1]\<rparr> \<and>
   \<not> syntactic_UUID ''x01020304-0506-0708-090a-0b0c0d0e0f10y'' \<and>
   snd (UnmarshalYAML zero_WebAuthnDevice
          (Inr (zero_WebAuthnDeviceData
             \<lparr>Data_AAGUID := ''x01020304-0506-0708-090a-0b0c0d0e0f10y''\<rparr>))) = None"
proof -
  have bang: "DecodeString ''!'' = ([], Some CorruptInputError)"
    by (simp add: DecodeString_def decodeMap_def encodeStd_def is_newline_def padChar_def)
  have empty: "DecodeString [] = ([], None)"
    by (simp add: DecodeString_def)
  have parse: "Parse ''x01020304-0506-0708-090a-0b0c0d0e0f10y'' =
        Inr [1, 2, 3, 4, 5, 6, 7, 8, 9, 10, 11, 12, 13, 14, 15, 16]"
    by code_simp
  have 1: "\<not> valid_base64 ''!''" using bang by (simp add: valid_base64_def)
  have 2: "snd (UnmarshalYAML (zero_WebAuthnDevice\<lparr>PublicKey := [1]\<rparr>)
          (Inr (zero_WebAuthnDeviceData\<lparr>Data_PublicKey := ''!''\<rparr>))) = Some CorruptInputError"
    using bang by (simp add: UnmarshalYAML_def zero_WebAuthnDeviceData_def)
  have 3: "fst (UnmarshalYAML (zero_WebAuthnDevice\<lparr>PublicKey := [1]\<rparr>)
          (Inr (zero_WebAuthnDeviceData\<lparr>Data_PublicKey := ''!''\<rparr>)))
     \<noteq> zero_WebAuthnDevice\<lparr>PublicKey := [1]\<rparr>"
    using bang by (simp add: UnmarshalYAML_def zero_WebAuthnDeviceData_def zero_WebAuthnDevice_def)
  have 4: "\<not> syntactic_UUID ''x01020304-0506-0708-090a-0b0c0d0e0f10y''"
    by (simp add: syntactic_UUID_def)
  have 5: "snd (UnmarshalYAML zero_WebAuthnDevice
          (Inr (zero_WebAuthnDeviceData
             \<lparr>Data_AAGUID := ''x01020304-0506-0708-090a-0b0c0d0e0f10y''\<rparr>))) = None"
    using empty parse by (simp add: UnmarshalYAML_def zero_WebAuthnDeviceData_def Let_def)
  from 1 2 3 4 5 show ?thesis by blast
qed

section \<open>Properties of the export container\<close>

lemma ToData_loop_eq:
  "i + length devices \<le> length ds \<Longrightarrow>
   ToData_loop i devices ds = take i ds @ map ToData devices @ drop (i + length devices) ds"
proof (induction devices arbitrary: i ds)
  case Nil
  then show ?case by simp
next
  case (Cons device devices)
  from Cons.prems have i: "i < length ds" by simp
  from Cons.prems have "(i + 1) + length devices \<le> length (ds[i := ToData device])" by simp
  from Cons.IH [OF this]
  have "ToData_loop (i + 1) devices (ds[i := ToData device]) =
        take (i + 1) (ds[i := ToData device]) @ map ToData devices @
        drop (i + 1 + length devices) (ds[i := ToData device])" .
  moreover have "take (i + 1) (ds[i := ToData device]) = take i ds @ [ToData device]"
    using i by (simp add: take_Suc_conv_app_nth)
  moreover have "drop (i + 1 + length devices) (ds[i := ToData device]) =
                 drop (i + length (device # devices)) ds"
    by simp
  ultimately show ?case by simp
qed

lemma ToData_Export_map:
  "ToData_Export export = \<lparr>Data_WebAuthnDevices = map ToData (WebAuthnDevices export)\<rparr>"
  using ToData_loop_eq [of 0 "WebAuthnDevices export"
      "replicate (length (WebAuthnDevices export)) zero_WebAuthnDeviceData"]
  by (simp add: ToData_Export_def)

lemma decode_devices_fails:
  "\<exists>node \<in> set nodes. snd (UnmarshalYAML zero_WebAuthnDevice node) \<noteq> None \<Longrightarrow>
   \<exists>err. decode_devices nodes = Inl err"
proof (induction nodes)
  case Nil
  then show ?case by simp
next
  case (Cons node nodes)
  obtain d e where r: "UnmarshalYAML zero_WebAuthnDevice node = (d, e)"
    by (cases "UnmarshalYAML zero_WebAuthnDevice node") auto
  show ?case
  proof (cases e)
    case (Some err)
    with r show ?thesis by simp
  next
    case None
    with r Cons.prems have "\<exists>node \<in> set nodes. snd (UnmarshalYAML zero_WebAuthnDevice node) \<noteq> None"
      by auto
    from Cons.IH [OF this] obtain err where "decode_devices nodes = Inl err" ..
    with r None show ?thesis by simp
  qed
qed

lemma decode_devices_succeeds:
  "\<forall>node \<in> set nodes. snd (UnmarshalYAML zero_WebAuthnDevice node) = None \<Longrightarrow>
   decode_devices nodes = Inr (map (\<lambda>node. fst (UnmarshalYAML zero_WebAuthnDevice node)) nodes)"
proof (induction nodes)
  case Nil
  then show ?case by simp
next
  case (Cons node nodes)
  obtain d e where r: "UnmarshalYAML zero_WebAuthnDevice node = (d, e)"
    by (cases "UnmarshalYAML zero_WebAuthnDevice node") auto
  with Cons.prems have e: "e = None" by simp
  from Cons.prems have "\<forall>node \<in> set nodes. snd (UnmarshalYAML zero_WebAuthnDevice node) = None"
    by simp
  from Cons.IH [OF this] r e show ?case by simp
qed

lemma invalid_publicKey_node_fails:
  "\<not> valid_base64 (Data_PublicKey dat) \<Longrightarrow>
   snd (UnmarshalYAML zero_WebAuthnDevice (Inr dat)) \<noteq> None"
  using UnmarshalYAML_invalid_publicKey [of dat zero_WebAuthnDevice] by auto

text \<open>
  C6: encoding a container encodes each device with \<open>ToData\<close>, in the order of the
  container. Decoding a container fails as a whole, with an error and no devices, as
  soon as one record fails to decode, in particular a record whose public-key text is
  not valid base64; when every record decodes, the devices come in the order of the
  records.
\<close>

theorem Export_codec:
  "ToData_Export export = \<lparr>Data_WebAuthnDevices = map ToData (WebAuthnDevices export)\<rparr> \<and>
   ((\<exists>node \<in> set nodes. snd (UnmarshalYAML zero_WebAuthnDevice node) \<noteq> None) \<longrightarrow>
      (\<exists>err. decode_Export nodes = Inl err)) \<and>
   ((\<forall>node \<in> set nodes. snd (UnmarshalYAML zero_WebAuthnDevice node) = None) \<longrightarrow>
      decode_Export nodes =
        Inr \<lparr>WebAuthnDevices = map (\<lambda>node. fst (UnmarshalYAML zero_WebAuthnDevice node)) nodes\<rparr>) \<and>
   (Inr dat \<in> set nodes \<and> \<not> valid_base64 (Data_PublicKey dat) \<longrightarrow>
      (\<exists>err. decode_Export nodes = Inl err))"
proof (intro conjI impI)
  show "ToData_Export export = \<lparr>Data_WebAuthnDevices = map ToData (WebAuthnDevices export)\<rparr>"
    by (rule ToData_Export_map)
next
  assume "\<exists>node \<in> set nodes. snd (UnmarshalYAML zero_WebAuthnDevice node) \<noteq> None"
  from decode_devices_fails [OF this] show "\<exists>err. decode_Export nodes = Inl err"
    by (auto simp add: decode_Export_def)
next
  assume "\<forall>node \<in> set nodes. snd (UnmarshalYAML zero_WebAuthnDevice node) = None"
  from decode_devices_succeeds [OF this]
  show "decode_Export nodes =
        Inr \<lparr>WebAuthnDevices = map (\<lambda>node. fst (UnmarshalYAML zero_WebAuthnDevice node)) nodes\<rparr>"
    by (simp add: decode_Export_def)
next
  assume "Inr dat \<in> set nodes \<and> \<not> valid_base64 (Data_PublicKey dat)"
  then have "\<exists>node \<in> set nodes. snd (UnmarshalYAML zero_WebAuthnDevice node) \<noteq> None"
    using invalid_publicKey_node_fails by blast
  from decode_devices_fails [OF this] show "\<exists>err. decode_Export nodes = Inl err"
    by (auto simp add: decode_Export_def)
qed

theorem Export_codec_witness:
  "\<not> valid_base64 ''!'' \<and>
   decode_Export
     [Inr (ToData (zero_WebAuthnDevice\<lparr>Username := ''john''\<rparr>)),
      Inr ((ToData (zero_WebAuthnDevice\<lparr>Username := ''harry''\<rparr>))\<lparr>Data_PublicKey := ''!''\<rparr>),
      Inr (ToData (zero_WebAuthnDevice\<lparr>Username := ''james''\<rparr>))] = Inl CorruptInputError \<and>
   decode_Export
     [Inr (ToData (zero_WebAuthnDevice\<lparr>Username := ''john''\<rparr>)),
      Inr (ToData (zero_WebAuthnDevice\<lparr>Username := ''james''\<rparr>))] =
     Inr \<lparr>WebAuthnDevices = [zero_WebAuthnDevice\<lparr>Username := ''john''\<rparr>,
                             zero_WebAuthnDevice\<lparr>Username := ''james''\<rparr>]\<rparr> \<and>
   ToData_Export \<lparr>WebAuthnDevices = [zero_WebAuthnDevice\<lparr>Username := ''john''\<rparr>,
                                     zero_WebAuthnDevice\<lparr>Username := ''james''\<rparr>]\<rparr> =
     \<lparr>Data_WebAuthnDevices = [ToData (zero_WebAuthnDevice\<lparr>Username := ''john''\<rparr>),
                              ToData (zero_WebAuthnDevice\<lparr>Username := ''james''\<rparr>)]\<rparr>"
proof -
  let ?john = "zero_WebAuthnDevice\<lparr>Username := ''john''\<rparr>"
  let ?harry = "zero_WebAuthnDevice\<lparr>Username := ''harry''\<rparr>"
  let ?james = "zero_WebAuthnDevice\<lparr>Username := ''james''\<rparr>"
  let ?bad = "(ToData ?harry)\<lparr>Data_PublicKey := ''!''\<rparr>"
  let ?three = "[Inr (ToData ?john), Inr ?bad, Inr (ToData ?james)]"
  let ?two = "[Inr (ToData ?john), Inr (ToData ?james)]"
  have valid: "valid_device ?john" "valid_device ?james"
    by (simp_all add: valid_device_def zero_WebAuthnDevice_def zero_NullUUID_def
        zero_NullTime_def Nil_UUID_def)
  have t: "AAGUID zero_WebAuthnDevice = zero_NullUUID" "LastUsedAt zero_WebAuthnDevice = zero_NullTime"
    by (simp_all add: zero_WebAuthnDevice_def)
  have john: "UnmarshalYAML zero_WebAuthnDevice (Inr (ToData ?john)) = (?john, None)"
    using UnmarshalYAML_ToData [OF valid(1) t] by (simp add: zero_WebAuthnDevice_def)
  have james: "UnmarshalYAML zero_WebAuthnDevice (Inr (ToData ?james)) = (?james, None)"
    using UnmarshalYAML_ToData [OF valid(2) t] by (simp add: zero_WebAuthnDevice_def)
  have bang: "DecodeString ''!'' = ([], Some CorruptInputError)"
    by (simp add: DecodeString_def decodeMap_def encodeStd_def is_newline_def padChar_def)
  then have inv: "\<not> valid_base64 ''!''" by (simp add: valid_base64_def)
  have bad: "snd (UnmarshalYAML zero_WebAuthnDevice (Inr ?bad)) = Some CorruptInputError"
    by (simp add: UnmarshalYAML_def bang)
  have h3: "Inr ?bad \<in> set ?three \<and> \<not> valid_base64 (Data_PublicKey ?bad)"
    using inv by simp
  have h2: "\<forall>node \<in> set ?two. snd (UnmarshalYAML zero_WebAuthnDevice node) = None"
    using john james by simp
  note thm3 = Export_codec [of "\<lparr>WebAuthnDevices = [?john, ?james]\<rparr>" ?three ?bad]
  note thm2 = Export_codec [of "\<lparr>WebAuthnDevices = [?john, ?james]\<rparr>" ?two ?bad]
  from thm3 h3 obtain err where e: "decode_Export ?three = Inl err" by blast
  have "decode_Export ?three = Inl CorruptInputError"
    using john bad by (cases "UnmarshalYAML zero_WebAuthnDevice (Inr ?bad)")
      (simp add: decode_Export_def)
  moreover from thm2 h2 have "decode_Export ?two =
      Inr \<lparr>WebAuthnDevices = map (\<lambda>node. fst (UnmarshalYAML zero_WebAuthnDevice node)) ?two\<rparr>"
    by blast
  then have "decode_Export ?two = Inr \<lparr>WebAuthnDevices = [?john, ?james]\<rparr>"
    using john james by simp
  moreover from thm2 have "ToData_Export \<lparr>WebAuthnDevices = [?john, ?james]\<rparr> =
      \<lparr>Data_WebAuthnDevices = [ToData ?john, ToData ?james]\<rparr>"
    by simp
  ultimately show ?thesis using inv by blast
qed

end
